theory Spec2Isabelle
  imports Main "HOL-Library.AList"
begin

section \<open>Python strings\<close>

text \<open>
  Text is a \<^typ>\<open>string\<close>: one \<^typ>\<open>char\<close> per code point, so the development covers
  the code points below 256. The string methods of Python that \<open>converter.py\<close> calls are
  written out on that range.
\<close>

definition newline :: char where
  "newline = CHR 0x0A"

text \<open>\<open>str.isspace\<close> of one character: the set \<open>str.rstrip()\<close> and \<open>str.strip()\<close> remove.\<close>

definition py_isspace :: "char \<Rightarrow> bool" where
  "py_isspace c = (of_char c \<in> set [9, 10, 11, 12, 13, 28, 29, 30, 31, 32, 133, 160 :: nat])"

text \<open>The line boundaries of \<open>str.splitlines\<close>, the pair CR LF apart.\<close>

definition py_linebreak :: "char \<Rightarrow> bool" where
  "py_linebreak c = (of_char c \<in> set [10, 11, 12, 13, 28, 29, 30, 133 :: nat])"

definition rstrip :: "string \<Rightarrow> string" where
  "rstrip text = rev (dropWhile py_isspace (rev text))"

definition lstrip :: "string \<Rightarrow> string" where
  "lstrip text = dropWhile py_isspace text"

definition strip :: "string \<Rightarrow> string" where
  "strip text = lstrip (rstrip text)"

definition startswith :: "string \<Rightarrow> string \<Rightarrow> bool" where
  "startswith s p = (take (length p) s = p)"

text \<open>
  \<open>str.splitlines()\<close>: a line ends at each boundary, CR LF counts once, and no empty
  last line is produced after a final boundary.
\<close>

fun splitlines_from :: "string \<Rightarrow> string \<Rightarrow> string list" where
  "splitlines_from line [] = (if line = [] then [] else [line])"
| "splitlines_from line (c # cs) =
     (if c = CHR 0x0D then
        (case cs of
           d # ds \<Rightarrow> if d = CHR 0x0A then line # splitlines_from [] ds
                     else line # splitlines_from [] cs
         | [] \<Rightarrow> line # splitlines_from [] cs)
      else if py_linebreak c then line # splitlines_from [] cs
      else splitlines_from (line @ [c]) cs)"

definition splitlines :: "string \<Rightarrow> string list" where
  "splitlines text = splitlines_from [] text"

text \<open>\<open>sep.join(xs)\<close>.\<close>

fun join :: "string \<Rightarrow> string list \<Rightarrow> string" where
  "join sep [] = []"
| "join sep [x] = x"
| "join sep (x # y # ys) = x @ sep @ join sep (y # ys)"

text \<open>\<open>xs[i:j]\<close> for indices that are not negative.\<close>

definition slice :: "'a list \<Rightarrow> nat \<Rightarrow> nat \<Rightarrow> 'a list" where
  "slice xs i j = take (j - i) (drop i xs)"

text \<open>\<open>needle in haystack\<close> on strings: a contiguous occurrence.\<close>

fun contains_str :: "string \<Rightarrow> string \<Rightarrow> bool" where
  "contains_str needle [] = (needle = [])"
| "contains_str needle (c # cs) = (startswith (c # cs) needle \<or> contains_str needle cs)"

text \<open>\<open>str(n)\<close> of a natural number, as \<open>str.format\<close> renders it.\<close>

definition digit :: "nat \<Rightarrow> char" where
  "digit d = ''0123456789'' ! d"

function str_nat :: "nat \<Rightarrow> string" where
  "str_nat n = (if n < 10 then [digit n] else str_nat (n div 10) @ [digit (n mod 10)])"
  by pat_completeness auto
termination
  by (relation "measure id") auto

section \<open>Values, tokens, cells\<close>

text \<open>
  What \<open>yaml.safe_load\<close> and \<open>json.loads\<close> return. A dict is the list of its items in
  insertion order; a float is kept by its literal.
\<close>

datatype pyval =
    PNone
  | PBool bool
  | PInt int
  | PFloat string
  | PStr string
  | PList "pyval list"
  | PDict "(pyval \<times> pyval) list"

type_synonym pydict = "(pyval \<times> pyval) list"

text \<open>
  A token of the block-level tokenizer. \<open>tok_map\<close> is the token's \<open>map\<close>, its
  \<open>[start, end]\<close> line span; the code reads it for front-matter, fence and block-break
  tokens only, which always carry one.
\<close>

record token =
  type :: string
  nesting :: int
  info :: string
  content :: string
  tok_map :: "nat \<times> nat"

datatype cell_type = Markdown | Code | Raw

text \<open>A cell of the notebook: \<open>cell_id\<close> is the \<open>id\<close> that \<open>nbformat\<close> gives it.\<close>

record cell =
  cell_id :: string
  cell_type :: cell_type
  source :: string
  metadata :: pydict

record notebook =
  nb_metadata :: pyval
  cells :: "cell list"

datatype yaml_error = ParserError string | ScannerError string | OtherYAMLError string

datatype error =
    MystMetadataParsingError string
  | IOError string
  | YAMLError yaml_error
  | AttributeError string
  | TypeError string
  | IndexError string
  | NotebookValidationError string

text \<open>
  The libraries the converter calls, as parameters:
  \<^item> \<open>parse\<close> is \<open>default_parser("html", disable_syntax=["inline"]).parse\<close>;
  \<^item> \<open>yaml_safe_load\<close> is \<open>yaml.safe_load\<close>, with the error it raises;
  \<^item> \<open>json_loads\<close> is \<open>json.loads\<close>, with the message of whatever it raises;
  \<^item> \<open>parse_directive_text\<close> is the function of \<open>myst_parser.parse_directives\<close> applied to
    \<open>MockDirective\<close>, an empty argument string and \<open>validate_options=False\<close>: it returns the
    options and the body lines, or the message of its \<open>DirectiveParsingError\<close>;
  \<^item> \<open>validate_notebook\<close> is the validation that \<open>nbformat.v4.new_notebook\<close> runs on a
    notebook without cells that has the given metadata, and \<open>validate_cell\<close> the one that the
    cell constructors run on a cell of the given type, source and metadata: the message of
    the \<open>NotebookValidationError\<close>, or \<open>None\<close> when the schema is met;
  \<^item> \<open>random_cell_id k\<close> is the id that \<open>nbformat\<close> draws at random for the cell built
    after \<open>k\<close> others in this run. A drawn id always meets the schema, so validation is
    not given it.
\<close>

record env =
  parse :: "string \<Rightarrow> token list"
  yaml_safe_load :: "string \<Rightarrow> yaml_error + pyval"
  json_loads :: "string \<Rightarrow> string + pyval"
  parse_directive_text :: "string \<Rightarrow> string + (pydict \<times> string list)"
  validate_notebook :: "pyval \<Rightarrow> string option"
  validate_cell :: "cell_type \<Rightarrow> string \<Rightarrow> pydict \<Rightarrow> string option"
  random_cell_id :: "nat \<Rightarrow> string"

definition CODE_DIRECTIVE :: string where
  "CODE_DIRECTIVE = ''{code-cell}''"

definition RAW_DIRECTIVE :: string where
  "RAW_DIRECTIVE = ''{raw-cell}''"

text \<open>\<open>obj.get(key, default)\<close>: only a dict has the method.\<close>

definition py_get :: "pyval \<Rightarrow> string \<Rightarrow> pyval \<Rightarrow> error + pyval" where
  "py_get obj key dflt =
     (case obj of
        PDict items \<Rightarrow> Inr (case map_of items (PStr key) of None \<Rightarrow> dflt | Some v \<Rightarrow> v)
      | _ \<Rightarrow> Inl (AttributeError ''get''))"

text \<open>\<open>key in obj\<close> for a string key: the keys of a dict, the elements of a list, the
  substrings of a string; the other values are not iterable.\<close>

definition py_in :: "string \<Rightarrow> pyval \<Rightarrow> error + bool" where
  "py_in key obj =
     (case obj of
        PDict items \<Rightarrow> Inr (PStr key \<in> set (map fst items))
      | PList xs \<Rightarrow> Inr (PStr key \<in> set xs)
      | PStr s \<Rightarrow> Inr (contains_str key s)
      | _ \<Rightarrow> Inl (TypeError ''argument is not iterable''))"

text \<open>\<open>nbformat.from_dict\<close> rebuilds the same tree as notebook nodes.\<close>

definition from_dict :: "'a \<Rightarrow> 'a" where
  "from_dict d = d"

text \<open>
  The constructors of \<open>nbformat.v4\<close>. Each cell constructor draws an id, sets type, source
  and metadata and validates the cell; \<open>drawn\<close> is the number of ids drawn before in the
  run. \<open>new_notebook\<close> sets the metadata, starts with no cell and validates the notebook.
  A failed validation raises \<open>NotebookValidationError\<close>.
\<close>

definition new_cell :: "env \<Rightarrow> cell_type \<Rightarrow> nat \<Rightarrow> string \<Rightarrow> pydict \<Rightarrow> error + cell" where
  "new_cell E kind drawn src meta =
     (case validate_cell E kind src meta of
        Some msg \<Rightarrow> Inl (NotebookValidationError msg)
      | None \<Rightarrow>
          Inr \<lparr>cell_id = random_cell_id E drawn, cell_type = kind, source = src,
               metadata = meta\<rparr>)"

definition new_markdown_cell :: "env \<Rightarrow> nat \<Rightarrow> string \<Rightarrow> pydict \<Rightarrow> error + cell" where
  "new_markdown_cell E drawn src meta = new_cell E Markdown drawn src meta"

definition new_code_cell :: "env \<Rightarrow> nat \<Rightarrow> string \<Rightarrow> pydict \<Rightarrow> error + cell" where
  "new_code_cell E drawn src meta = new_cell E Code drawn src meta"

definition new_raw_cell :: "env \<Rightarrow> nat \<Rightarrow> string \<Rightarrow> pydict \<Rightarrow> error + cell" where
  "new_raw_cell E drawn src meta = new_cell E Raw drawn src meta"

definition new_notebook :: "env \<Rightarrow> pyval \<Rightarrow> error + notebook" where
  "new_notebook E meta =
     (case validate_notebook E meta of
        Some msg \<Rightarrow> Inl (NotebookValidationError msg)
      | None \<Rightarrow> Inr \<lparr>nb_metadata = meta, cells = []\<rparr>)"

section \<open>The converter\<close>

subsection \<open>\<open>is_myst_notebook\<close>\<close>

text \<open>The loop over \<open>lines[1:]\<close> that collects the front matter up to its closing line.\<close>

fun yaml_lines_of :: "string list \<Rightarrow> string list" where
  "yaml_lines_of [] = []"
| "yaml_lines_of (line # rest) =
     (if startswith line ''---'' \<or> startswith line ''...'' then []
      else line # yaml_lines_of rest)"

definition is_myst_notebook :: "env \<Rightarrow> string \<Rightarrow> error + bool" where
  "is_myst_notebook E inputstring =
     (let lines = splitlines inputstring in
      if lines = [] \<or> \<not> startswith (hd lines) ''---'' then Inr False
      else
        (case yaml_safe_load E (join [newline] (yaml_lines_of (tl lines))) of
           Inl err \<Rightarrow> Inl (YAMLError err)
         | Inr front_matter \<Rightarrow>
        (case py_get front_matter ''jupytext'' (PDict []) of
           Inl err \<Rightarrow> Inl err
         | Inr jupytext \<Rightarrow>
        (case py_get jupytext ''text_representation'' (PDict []) of
           Inl err \<Rightarrow> Inl err
         | Inr text_representation \<Rightarrow>
        (case py_get text_representation ''format_name'' PNone of
           Inl err \<Rightarrow> Inl err
         | Inr format_name \<Rightarrow>
        if format_name \<noteq> PStr ''myst'' then Inr False
        else
        (case py_get front_matter ''kernelspec'' (PDict []) of
           Inl err \<Rightarrow> Inl err
         | Inr kernelspec \<Rightarrow>
        (case py_in ''name'' kernelspec of
           Inl err \<Rightarrow> Inl err
         | Inr has_name \<Rightarrow>
        if \<not> has_name then
          Inl (IOError ''A myst notebook text-representation requires kernelspec/name metadata'')
        else
        (case py_in ''display_name'' kernelspec of
           Inl err \<Rightarrow> Inl err
         | Inr has_display_name \<Rightarrow>
        if \<not> has_display_name then
          Inl (IOError
            ''A myst notebook text-representation requires kernelspec/display_name metadata'')
        else Inr True))))))))"

subsection \<open>\<open>strip_blank_lines\<close>\<close>

text \<open>The \<open>while\<close> loop that drops one leading newline at a time.\<close>

fun drop_leading_newlines :: "string \<Rightarrow> string" where
  "drop_leading_newlines [] = []"
| "drop_leading_newlines (c # cs) =
     (if c = newline then drop_leading_newlines cs else c # cs)"

definition strip_blank_lines :: "string \<Rightarrow> string" where
  "strip_blank_lines text = drop_leading_newlines (rstrip text)"

subsection \<open>\<open>read_fenced_cell\<close> and \<open>read_cell_metadata\<close>\<close>

definition read_fenced_cell ::
  "env \<Rightarrow> token \<Rightarrow> nat \<Rightarrow> string \<Rightarrow> error + (pydict \<times> string list)" where
  "read_fenced_cell E token cell_index cell_kind =
     (case parse_directive_text E (content token) of
        Inl err \<Rightarrow>
          Inl (MystMetadataParsingError
                (cell_kind @ '' cell '' @ str_nat cell_index @ '' at line '' @
                 str_nat (fst (tok_map token) + 1) @ '' could not be read: '' @ err))
      | Inr (options, body_lines) \<Rightarrow> Inr (options, body_lines))"

definition read_cell_metadata :: "env \<Rightarrow> token \<Rightarrow> nat \<Rightarrow> error + pydict" where
  "read_cell_metadata E token cell_index =
     (if content token \<noteq> [] then
        (case json_loads E (strip (content token)) of
           Inl err \<Rightarrow>
             Inl (MystMetadataParsingError
                   (''Markdown cell '' @ str_nat cell_index @ '' at line '' @
                    str_nat (fst (tok_map token) + 1) @ '' could not be read: '' @ err))
         | Inr (PDict items) \<Rightarrow> Inr items
         | Inr _ \<Rightarrow>
             Inl (MystMetadataParsingError
                   (''Markdown cell '' @ str_nat cell_index @ '' at line '' @
                    str_nat (fst (tok_map token) + 1) @ '' is not a dict'')))
      else Inr [])"

subsection \<open>\<open>myst_to_notebook\<close>\<close>

text \<open>
  The closure \<open>_flush_markdown\<close> reads \<open>lines\<close> and \<open>store_line_numbers\<close> and appends to
  \<open>notebook.cells\<close>; here it takes them and returns the notebook, or the error of the cell
  constructor. Every cell built in a run is appended, so the number of ids drawn before a
  cell is the number of cells of the notebook.
\<close>

definition flush_markdown ::
  "env \<Rightarrow> string list \<Rightarrow> bool \<Rightarrow> nat \<Rightarrow> token option \<Rightarrow> pydict \<Rightarrow> notebook \<Rightarrow>
   error + notebook" where
  "flush_markdown E lines store_line_numbers start_line token md_metadata nb =
     (let endline = (case token of Some t \<Rightarrow> fst (tok_map t) | None \<Rightarrow> length lines);
          md_source = strip_blank_lines (join [newline] (slice lines start_line endline));
          meta = from_dict md_metadata;
          meta = (if store_line_numbers
                  then AList.update (PStr ''_source_lines'')
                         (PList [PInt (int start_line), PInt (int endline)]) meta
                  else meta)
      in if md_source \<noteq> [] then
           (case new_markdown_cell E (length (cells nb)) md_source meta of
              Inl err \<Rightarrow> Inl err
            | Inr c \<Rightarrow> Inr (nb\<lparr>cells := cells nb @ [c]\<rparr>))
         else Inr nb)"

text \<open>The variables the \<open>for\<close> loop updates.\<close>

record scan_state =
  nesting_level :: int
  md_metadata :: pydict
  md_start_line :: nat
  nb :: notebook

text \<open>The metadata of a fenced cell: the options, with the line span when it is tracked.\<close>

definition fence_meta :: "bool \<Rightarrow> token \<Rightarrow> pydict \<Rightarrow> pydict" where
  "fence_meta store_line_numbers token options =
     (let meta = from_dict options in
      if store_line_numbers
      then AList.update (PStr ''_source_lines'')
             (PList [PInt (int (fst (tok_map token) + 1)), PInt (int (snd (tok_map token)))]) meta
      else meta)"

text \<open>One iteration of the loop over the tokens.\<close>

definition scan_token ::
  "env \<Rightarrow> string list \<Rightarrow> string \<Rightarrow> string \<Rightarrow> bool \<Rightarrow> scan_state \<Rightarrow> token \<Rightarrow> error + scan_state"
  where
  "scan_token E lines code_directive raw_directive store_line_numbers s token =
     (let level = nesting_level s + nesting token in
      if level \<noteq> 0 then Inr (s\<lparr>nesting_level := level\<rparr>)
      else if type token = ''fence'' \<and> startswith (info token) code_directive then
        (case flush_markdown E lines store_line_numbers (md_start_line s) (Some token)
                (md_metadata s) (nb s) of
           Inl err \<Rightarrow> Inl err
         | Inr nb1 \<Rightarrow>
        (case read_fenced_cell E token (length (cells nb1)) ''Code'' of
           Inl err \<Rightarrow> Inl err
         | Inr (options, body_lines) \<Rightarrow>
        (case new_code_cell E (length (cells nb1)) (join [newline] body_lines)
                (fence_meta store_line_numbers token options) of
           Inl err \<Rightarrow> Inl err
         | Inr c \<Rightarrow>
             Inr \<lparr>nesting_level = level, md_metadata = [],
                  md_start_line = snd (tok_map token),
                  nb = nb1\<lparr>cells := cells nb1 @ [c]\<rparr>\<rparr>)))
      else if type token = ''fence'' \<and> startswith (info token) raw_directive then
        (case flush_markdown E lines store_line_numbers (md_start_line s) (Some token)
                (md_metadata s) (nb s) of
           Inl err \<Rightarrow> Inl err
         | Inr nb1 \<Rightarrow>
        (case read_fenced_cell E token (length (cells nb1)) ''Raw'' of
           Inl err \<Rightarrow> Inl err
         | Inr (options, body_lines) \<Rightarrow>
        (case new_raw_cell E (length (cells nb1)) (join [newline] body_lines)
                (fence_meta store_line_numbers token options) of
           Inl err \<Rightarrow> Inl err
         | Inr c \<Rightarrow>
             Inr \<lparr>nesting_level = level, md_metadata = [],
                  md_start_line = snd (tok_map token),
                  nb = nb1\<lparr>cells := cells nb1 @ [c]\<rparr>\<rparr>)))
      else if type token = ''myst_block_break'' then
        (case flush_markdown E lines store_line_numbers (md_start_line s) (Some token)
                (md_metadata s) (nb s) of
           Inl err \<Rightarrow> Inl err
         | Inr nb1 \<Rightarrow>
        (case read_cell_metadata E token (length (cells nb1)) of
           Inl err \<Rightarrow> Inl err
         | Inr meta \<Rightarrow>
             Inr \<lparr>nesting_level = level, md_metadata = meta,
                  md_start_line = snd (tok_map token), nb = nb1\<rparr>))
      else Inr (s\<lparr>nesting_level := level\<rparr>))"

text \<open>The loop: an exception ends it.\<close>

fun scan_tokens ::
  "env \<Rightarrow> string list \<Rightarrow> string \<Rightarrow> string \<Rightarrow> bool \<Rightarrow> scan_state \<Rightarrow> token list \<Rightarrow>
   error + scan_state" where
  "scan_tokens E lines cd rd sln s [] = Inr s"
| "scan_tokens E lines cd rd sln s (token # tokens) =
     (case scan_token E lines cd rd sln s token of
        Inl err \<Rightarrow> Inl err
      | Inr s' \<Rightarrow> scan_tokens E lines cd rd sln s' tokens)"

text \<open>
  The block of \<open>myst_to_notebook\<close> that gets the document metadata: \<open>tokens[0]\<close> of an
  empty list raises \<open>IndexError\<close>; a leading front-matter token is popped and parsed as
  YAML, and only the two YAML errors the code names become \<open>MystMetadataParsingError\<close>.
  It returns the tokens left, \<open>md_start_line\<close> and \<open>metadata_nb\<close>.
\<close>

definition read_front_matter :: "env \<Rightarrow> token list \<Rightarrow> error + (token list \<times> nat \<times> pyval)" where
  "read_front_matter E tokens =
     (case tokens of
        [] \<Rightarrow> Inl (IndexError ''list index out of range'')
      | first # rest \<Rightarrow>
          if type first = ''front_matter''
          then (case yaml_safe_load E (content first) of
                  Inr v \<Rightarrow> Inr (rest, snd (tok_map first), v)
                | Inl (ParserError msg) \<Rightarrow>
                    Inl (MystMetadataParsingError (''Notebook metadata: '' @ msg))
                | Inl (ScannerError msg) \<Rightarrow>
                    Inl (MystMetadataParsingError (''Notebook metadata: '' @ msg))
                | Inl (OtherYAMLError msg) \<Rightarrow> Inl (YAMLError (OtherYAMLError msg)))
          else Inr (tokens, 0, PDict []))"

text \<open>The state in which the loop starts.\<close>

definition initial_state :: "nat \<Rightarrow> notebook \<Rightarrow> scan_state" where
  "initial_state md_start notebook =
     \<lparr>nesting_level = 0, md_metadata = [], md_start_line = md_start, nb = notebook\<rparr>"

text \<open>
  The rest of \<open>myst_to_notebook\<close> once the text is split and tokenized: the document
  metadata, the empty notebook, the loop and the last flush.
\<close>

definition convert_tokens ::
  "env \<Rightarrow> string list \<Rightarrow> token list \<Rightarrow> string \<Rightarrow> string \<Rightarrow> bool \<Rightarrow> error + notebook" where
  "convert_tokens E lines tokens code_directive raw_directive store_line_numbers =
     (case read_front_matter E tokens of
        Inl err \<Rightarrow> Inl err
      | Inr (tokens', md_start, metadata_nb) \<Rightarrow>
     (case new_notebook E (from_dict metadata_nb) of
        Inl err \<Rightarrow> Inl err
      | Inr notebook \<Rightarrow>
     (case scan_tokens E lines code_directive raw_directive store_line_numbers
             (initial_state md_start notebook) tokens' of
        Inl err \<Rightarrow> Inl err
      | Inr s \<Rightarrow>
          flush_markdown E lines store_line_numbers (md_start_line s) None
            (md_metadata s) (nb s))))"

definition myst_to_notebook ::
  "env \<Rightarrow> string \<Rightarrow> string \<Rightarrow> string \<Rightarrow> bool \<Rightarrow> error + notebook" where
  "myst_to_notebook E text code_directive raw_directive store_line_numbers =
     convert_tokens E (splitlines text) (parse E (text @ [newline]))
       code_directive raw_directive store_line_numbers"

section \<open>Notions the properties are stated with\<close>

text \<open>
  The tokens the loop classifies: those at which the running nesting level, after the
  token's own nesting is added, is 0.
\<close>

fun top_level_tokens :: "int \<Rightarrow> token list \<Rightarrow> token list" where
  "top_level_tokens level [] = []"
| "top_level_tokens level (t # ts) =
     (if level + nesting t = 0 then t # top_level_tokens (level + nesting t) ts
      else top_level_tokens (level + nesting t) ts)"

definition is_cell_fence :: "string \<Rightarrow> string \<Rightarrow> token \<Rightarrow> bool" where
  "is_cell_fence code_directive raw_directive t =
     (type t = ''fence'' \<and>
      (startswith (info t) code_directive \<or> startswith (info t) raw_directive))"

definition is_block_break :: "token \<Rightarrow> bool" where
  "is_block_break t = (type t = ''myst_block_break'')"

text \<open>The tokens the loop runs over: the stream without a leading front-matter token.\<close>

definition scanned_tokens :: "token list \<Rightarrow> token list" where
  "scanned_tokens tokens =
     (case tokens of
        [] \<Rightarrow> []
      | first # rest \<Rightarrow> if type first = ''front_matter'' then rest else tokens)"


definition is_markdown :: "cell \<Rightarrow> bool" where
  "is_markdown c = (cell_type c = Markdown)"

text \<open>A Markdown source that is not empty, starts with no newline and ends with no whitespace.\<close>

definition trimmed_source :: "string \<Rightarrow> bool" where
  "trimmed_source src = (src \<noteq> [] \<and> hd src \<noteq> newline \<and> \<not> py_isspace (last src))"

definition markdown_ok :: "cell \<Rightarrow> bool" where
  "markdown_ok c = (is_markdown c \<longrightarrow> trimmed_source (source c))"

text \<open>
  A run of tokens, entered at a nesting level, in which the loop classifies nothing: no
  token at level 0 is a directive fence or a block break.
\<close>

definition plain_run :: "string \<Rightarrow> string \<Rightarrow> int \<Rightarrow> token list \<Rightarrow> bool" where
  "plain_run code_directive raw_directive level run =
     list_all (\<lambda>t. \<not> is_cell_fence code_directive raw_directive t \<and> \<not> is_block_break t)
       (top_level_tokens level run)"

text \<open>
  The line at which a flush ends, the metadata it gives its cell, and what it returns for
  a source: the notebook as it is for the empty source, else the notebook with the Markdown
  cell that \<open>nbformat\<close> builds, or the error of the validation.
\<close>

definition endline_of :: "string list \<Rightarrow> token option \<Rightarrow> nat" where
  "endline_of lines token = (case token of Some t \<Rightarrow> fst (tok_map t) | None \<Rightarrow> length lines)"

definition tracked_meta :: "bool \<Rightarrow> nat \<Rightarrow> nat \<Rightarrow> pydict \<Rightarrow> pydict" where
  "tracked_meta store_line_numbers start_line endline md_meta =
     (if store_line_numbers
      then AList.update (PStr ''_source_lines'')
             (PList [PInt (int start_line), PInt (int endline)]) md_meta
      else md_meta)"

definition with_markdown_cell :: "env \<Rightarrow> notebook \<Rightarrow> string \<Rightarrow> pydict \<Rightarrow> error + notebook" where
  "with_markdown_cell E nbk src meta =
     (if src = [] then Inr nbk
      else case validate_cell E Markdown src meta of
        Some msg \<Rightarrow> Inl (NotebookValidationError msg)
      | None \<Rightarrow>
          Inr (nbk\<lparr>cells := cells nbk @
                 [\<lparr>cell_id = random_cell_id E (length (cells nbk)), cell_type = Markdown,
                   source = src, metadata = meta\<rparr>]\<rparr>))"




subsection \<open>Blank-line stripping, line by line\<close>

definition blank_line :: "string \<Rightarrow> bool" where
  "blank_line l = list_all py_isspace l"

text \<open>
  What \<open>strip_blank_lines\<close> leaves of a list of lines: the trailing lines of whitespace go,
  the last line left loses its trailing whitespace, then the leading empty lines go.
\<close>

definition strip_trailing :: "string list \<Rightarrow> string list" where
  "strip_trailing ls =
     (case dropWhile blank_line (rev ls) of
        [] \<Rightarrow> []
      | l # before \<Rightarrow> rev before @ [rstrip l])"

definition kept_lines :: "string list \<Rightarrow> string list" where
  "kept_lines ls = dropWhile (\<lambda>l. l = []) (strip_trailing ls)"

text \<open>
  The flush as the specification words it: the leading and the trailing blank lines of the
  slice are removed, and nothing else.
\<close>

definition strip_blank_lines_spec :: "string list \<Rightarrow> string list" where
  "strip_blank_lines_spec ls = rev (dropWhile blank_line (rev (dropWhile blank_line ls)))"

definition flush_markdown_spec ::
  "env \<Rightarrow> string list \<Rightarrow> bool \<Rightarrow> nat \<Rightarrow> token option \<Rightarrow> pydict \<Rightarrow> notebook \<Rightarrow>
   error + notebook" where
  "flush_markdown_spec E lines store_line_numbers start_line token md_meta nbk =
     (let endline = (case token of Some t \<Rightarrow> fst (tok_map t) | None \<Rightarrow> length lines);
          kept = strip_blank_lines_spec (slice lines start_line endline);
          meta = (if store_line_numbers
                  then AList.update (PStr ''_source_lines'')
                         (PList [PInt (int start_line), PInt (int endline)]) md_meta
                  else md_meta)
      in if kept \<noteq> [] then
           (case new_markdown_cell E (length (cells nbk)) (join [newline] kept) meta of
              Inl err \<Rightarrow> Inl err
            | Inr c \<Rightarrow> Inr (nbk\<lparr>cells := cells nbk @ [c]\<rparr>))
         else Inr nbk)"

section \<open>Example documents\<close>

definition tok :: "string \<Rightarrow> int \<Rightarrow> string \<Rightarrow> string \<Rightarrow> nat \<times> nat \<Rightarrow> token" where
  "tok ty n i c m = \<lparr>type = ty, nesting = n, info = i, content = c, tok_map = m\<rparr>"

definition json_k1 :: string where
  \<open>json_k1 = ''{"k": 1}''\<close>

text \<open>
  A document with a paragraph, a block break carrying metadata, a second paragraph, a code
  cell, and a list whose item holds a raw-cell fence.
\<close>

definition cells_text :: string where
  "cells_text = join [newline]
     [''intro'',
      ''+++ '' @ json_k1,
      ''note'',
      ''```{code-cell}'',
      ''x'',
      ''```'',
      ''- item'',
      '''',
      ''  ```{raw-cell}'',
      ''  y'',
      ''  ```'']"

definition cells_tokens :: "token list" where
  "cells_tokens =
     [tok ''paragraph_open'' 1 [] [] (0, 1),
      tok ''inline'' 0 [] ''intro'' (0, 1),
      tok ''paragraph_close'' (- 1) [] [] (0, 0),
      tok ''myst_block_break'' 0 [] json_k1 (1, 2),
      tok ''paragraph_open'' 1 [] [] (2, 3),
      tok ''inline'' 0 [] ''note'' (2, 3),
      tok ''paragraph_close'' (- 1) [] [] (0, 0),
      tok ''fence'' 0 ''{code-cell}'' (''x'' @ [newline]) (3, 6),
      tok ''bullet_list_open'' 1 [] [] (6, 11),
      tok ''list_item_open'' 1 [] [] (6, 11),
      tok ''paragraph_open'' 1 [] [] (6, 7),
      tok ''inline'' 0 [] ''item'' (6, 7),
      tok ''paragraph_close'' (- 1) [] [] (0, 0),
      tok ''fence'' 0 ''{raw-cell}'' (''y'' @ [newline]) (8, 11),
      tok ''list_item_close'' (- 1) [] [] (0, 0),
      tok ''bullet_list_close'' (- 1) [] [] (0, 0)]"

definition cells_notebook :: notebook where
  "cells_notebook =
     \<lparr>nb_metadata = PDict [],
      cells =
        [\<lparr>cell_id = ''id0'', cell_type = Markdown, source = ''intro'', metadata = []\<rparr>,
         \<lparr>cell_id = ''id1'', cell_type = Markdown, source = ''note'',
          metadata = [(PStr ''k'', PInt 1)]\<rparr>,
         \<lparr>cell_id = ''id2'', cell_type = Code, source = ''x'', metadata = []\<rparr>,
         \<lparr>cell_id = ''id3'', cell_type = Markdown,
          source = join [newline] [''- item'', [], ''  ```{raw-cell}'', ''  y'', ''  ```''],
          metadata = []\<rparr>]\<rparr>"

text \<open>A paragraph indented by one space.\<close>

definition indented_text :: string where
  "indented_text = '' a''"

definition indented_tokens :: "token list" where
  "indented_tokens =
     [tok ''paragraph_open'' 1 [] [] (0, 1),
      tok ''inline'' 0 [] ''a'' (0, 1),
      tok ''paragraph_close'' (- 1) [] [] (0, 0)]"

text \<open>Lines with blank lines around them, and lines that are all blank.\<close>

definition padded_text :: string where
  "padded_text = [newline] @ '' '' @ [newline] @ ''a '' @ [newline, newline]"

definition blank_text :: string where
  "blank_text = [newline] @ '' '' @ [newline]"

text \<open>
  Texts with a front matter: the dialect tag without a kernelspec, the dialect tag with a
  complete kernelspec, a front matter of another kind, one that is not YAML, and an empty
  one.
\<close>

definition myst_header :: "string list" where
  "myst_header = [''jupytext:'', ''  text_representation:'', ''    format_name: myst'']"

definition kernel_header :: "string list" where
  "kernel_header = [''kernelspec:'', ''  display_name: Python 3'', ''  name: python3'']"

definition myst_meta :: pyval where
  "myst_meta =
     PDict [(PStr ''jupytext'',
             PDict [(PStr ''text_representation'', PDict [(PStr ''format_name'', PStr ''myst'')])])]"

definition notebook_meta :: pyval where
  "notebook_meta =
     PDict [(PStr ''jupytext'',
             PDict [(PStr ''text_representation'', PDict [(PStr ''format_name'', PStr ''myst'')])]),
            (PStr ''kernelspec'',
             PDict [(PStr ''display_name'', PStr ''Python 3''), (PStr ''name'', PStr ''python3'')])]"

definition no_kernelspec_text :: string where
  "no_kernelspec_text = join [newline] ([''---''] @ myst_header @ [''---'', ''body''])"

definition notebook_text :: string where
  "notebook_text = join [newline] ([''---''] @ myst_header @ kernel_header @ [''---'', ''body''])"

definition titled_text :: string where
  "titled_text = join [newline] [''---'', ''title: x'', ''---'', ''body'']"

definition malformed_text :: string where
  "malformed_text = join [newline] [''---'', ''a: ['', ''---'', ''body'']"

definition empty_front_text :: string where
  "empty_front_text = join [newline] [''---'', ''---'', ''body'']"

definition body_tokens :: "nat \<Rightarrow> token list" where
  "body_tokens line =
     [tok ''paragraph_open'' 1 [] [] (line, line + 1),
      tok ''inline'' 0 [] ''body'' (line, line + 1),
      tok ''paragraph_close'' (- 1) [] [] (0, 0)]"

text \<open>A block break whose metadata ends with a comma, then a paragraph.\<close>

definition json_bad :: string where
  \<open>json_bad = ''{"k": 1,}''\<close>

definition bad_break_text :: string where
  "bad_break_text = join [newline] [''intro'', ''+++ '' @ json_bad, ''note'']"

definition bad_break_tokens :: "token list" where
  "bad_break_tokens =
     [tok ''paragraph_open'' 1 [] [] (0, 1),
      tok ''inline'' 0 [] ''intro'' (0, 1),
      tok ''paragraph_close'' (- 1) [] [] (0, 0),
      tok ''myst_block_break'' 0 [] json_bad (1, 2),
      tok ''paragraph_open'' 1 [] [] (2, 3),
      tok ''inline'' 0 [] ''note'' (2, 3),
      tok ''paragraph_close'' (- 1) [] [] (0, 0)]"

text \<open>The parts of that stream, and the notebook when the break is reached.\<close>

definition intro_tokens :: "token list" where
  "intro_tokens =
     [tok ''paragraph_open'' 1 [] [] (0, 1),
      tok ''inline'' 0 [] ''intro'' (0, 1),
      tok ''paragraph_close'' (- 1) [] [] (0, 0)]"

definition bad_break :: token where
  "bad_break = tok ''myst_block_break'' 0 [] json_bad (1, 2)"

definition note_tokens :: "token list" where
  "note_tokens =
     [tok ''paragraph_open'' 1 [] [] (2, 3),
      tok ''inline'' 0 [] ''note'' (2, 3),
      tok ''paragraph_close'' (- 1) [] [] (0, 0)]"

definition empty_notebook :: notebook where
  "empty_notebook = \<lparr>nb_metadata = PDict [], cells = []\<rparr>"

definition intro_notebook :: notebook where
  "intro_notebook =
     \<lparr>nb_metadata = PDict [],
      cells = [\<lparr>cell_id = ''id0'', cell_type = Markdown, source = ''intro'',
                metadata = []\<rparr>]\<rparr>"

text \<open>A block break with malformed metadata inside a block quote.\<close>

definition quoted_break_text :: string where
  "quoted_break_text = ''> +++ '' @ json_bad"

definition quoted_break_tokens :: "token list" where
  "quoted_break_tokens =
     [tok ''blockquote_open'' 1 [] [] (0, 1),
      tok ''myst_block_break'' 0 [] json_bad (0, 1),
      tok ''blockquote_close'' (- 1) [] [] (0, 0)]"

text \<open>A block break with metadata and the paragraph it belongs to; the same with a tag
  list that is a string.\<close>

definition break_note_text :: string where
  "break_note_text = join [newline] [''+++ '' @ json_k1, ''note'']"

definition json_tags :: string where
  \<open>json_tags = ''{"tags": "hide"}''\<close>

definition tagged_text :: string where
  "tagged_text = join [newline] [''+++ '' @ json_tags, ''note'']"

definition break_note_tokens :: "string \<Rightarrow> token list" where
  "break_note_tokens js =
     [tok ''myst_block_break'' 0 [] js (0, 1),
      tok ''paragraph_open'' 1 [] [] (1, 2),
      tok ''inline'' 0 [] ''note'' (1, 2),
      tok ''paragraph_close'' (- 1) [] [] (0, 0)]"

text \<open>
  The block break with metadata at a line span, the paragraph that follows it in the short
  document, and the notebook of that document.
\<close>

definition k1_break :: "nat \<times> nat \<Rightarrow> token" where
  "k1_break span = tok ''myst_block_break'' 0 [] json_k1 span"

definition note_run :: "token list" where
  "note_run =
     [tok ''paragraph_open'' 1 [] [] (1, 2),
      tok ''inline'' 0 [] ''note'' (1, 2),
      tok ''paragraph_close'' (- 1) [] [] (0, 0)]"

definition note_notebook :: notebook where
  "note_notebook =
     \<lparr>nb_metadata = PDict [],
      cells = [\<lparr>cell_id = ''id0'', cell_type = Markdown, source = ''note'',
                metadata = [(PStr ''k'', PInt 1)]\<rparr>]\<rparr>"

text \<open>
  The answers of the libraries on the example documents: the tokens of each text, the
  values of the front matters and of the JSON objects with the errors abridged, a fence
  content without options, whose body is its lines, a validation that refuses notebook
  metadata that is no mapping and a tag list that is a string, and the ids of one run.
\<close>

definition demo_parse :: "string \<Rightarrow> token list" where
  "demo_parse t =
     (if t = cells_text @ [newline] then cells_tokens
      else if t = indented_text @ [newline] then indented_tokens
      else if t = bad_break_text @ [newline] then bad_break_tokens
      else if t = quoted_break_text @ [newline] then quoted_break_tokens
      else if t = break_note_text @ [newline] then break_note_tokens json_k1
      else if t = tagged_text @ [newline] then break_note_tokens json_tags
      else if t = no_kernelspec_text @ [newline]
        then tok ''front_matter'' 0 [] (join [newline] myst_header) (0, 5) # body_tokens 5
      else if t = notebook_text @ [newline]
        then tok ''front_matter'' 0 [] (join [newline] (myst_header @ kernel_header)) (0, 8)
               # body_tokens 8
      else if t = titled_text @ [newline]
        then tok ''front_matter'' 0 [] ''title: x'' (0, 3) # body_tokens 3
      else if t = malformed_text @ [newline]
        then tok ''front_matter'' 0 [] ''a: ['' (0, 3) # body_tokens 3
      else if t = empty_front_text @ [newline]
        then tok ''front_matter'' 0 [] [] (0, 2) # body_tokens 2
      else [])"

definition demo_yaml :: "string \<Rightarrow> yaml_error + pyval" where
  "demo_yaml s =
     (if s = join [newline] myst_header then Inr myst_meta
      else if s = join [newline] (myst_header @ kernel_header) then Inr notebook_meta
      else if s = ''title: x'' then Inr (PDict [(PStr ''title'', PStr ''x'')])
      else if s = ''a: ['' then Inl (ParserError ''while parsing a flow node'')
      else Inr PNone)"

definition demo_json :: "string \<Rightarrow> string + pyval" where
  "demo_json s =
     (if s = json_k1 then Inr (PDict [(PStr ''k'', PInt 1)])
      else if s = json_bad then Inl ''Expecting property name enclosed in double quotes''
      else if s = json_tags then Inr (PDict [(PStr ''tags'', PStr ''hide'')])
      else if s = ''[1]'' then Inr (PList [PInt 1])
      else Inl ''Expecting value'')"

definition demo_validate_notebook :: "pyval \<Rightarrow> string option" where
  "demo_validate_notebook meta =
     (case meta of PDict items \<Rightarrow> None | _ \<Rightarrow> Some ''metadata is not of type object'')"

definition demo_validate_cell :: "cell_type \<Rightarrow> string \<Rightarrow> pydict \<Rightarrow> string option" where
  "demo_validate_cell kind src meta =
     (case map_of meta (PStr ''tags'') of
        Some (PStr s) \<Rightarrow> Some ''tags is not of type array''
      | _ \<Rightarrow> None)"

definition demo_env :: env where
  "demo_env =
     \<lparr>parse = demo_parse,
      yaml_safe_load = demo_yaml,
      json_loads = demo_json,
      parse_directive_text = (\<lambda>s. Inr ([], splitlines s)),
      validate_notebook = demo_validate_notebook,
      validate_cell = demo_validate_cell,
      random_cell_id = (\<lambda>k. ''id'' @ str_nat k)\<rparr>"


text \<open>
  The state of the scan of the first example before its code fence: one cell, and the
  metadata of the block break pending. Then the state after the fence.
\<close>

definition pending_state :: scan_state where
  "pending_state =
     \<lparr>nesting_level = 0, md_metadata = [(PStr ''k'', PInt 1)], md_start_line = 2,
      nb = \<lparr>nb_metadata = PDict [],
            cells = [\<lparr>cell_id = ''id0'', cell_type = Markdown, source = ''intro'',
                      metadata = []\<rparr>]\<rparr>\<rparr>"

definition code_fence :: token where
  "code_fence = tok ''fence'' 0 ''{code-cell}'' (''x'' @ [newline]) (3, 6)"

definition after_code_state :: scan_state where
  "after_code_state =
     \<lparr>nesting_level = 0, md_metadata = [], md_start_line = 6,
      nb = \<lparr>nb_metadata = PDict [],
            cells = [\<lparr>cell_id = ''id0'', cell_type = Markdown, source = ''intro'',
                      metadata = []\<rparr>,
                     \<lparr>cell_id = ''id1'', cell_type = Markdown, source = ''note'',
                      metadata = [(PStr ''k'', PInt 1)]\<rparr>,
                     \<lparr>cell_id = ''id2'', cell_type = Code, source = ''x'',
                      metadata = []\<rparr>]\<rparr>\<rparr>"




definition nested_state :: scan_state where
  "nested_state = after_code_state\<lparr>nesting_level := 2\<rparr>"


subsection \<open>Error messages\<close>

text \<open>
  The message of an error that names a cell: its type, its index among the cells produced
  so far and its line, then the detail.
\<close>

definition cell_error_message :: "string \<Rightarrow> nat \<Rightarrow> nat \<Rightarrow> string \<Rightarrow> string" where
  "cell_error_message kind index line detail =
     kind @ '' cell '' @ str_nat index @ '' at line '' @ str_nat line @ detail"

definition is_metadata_error :: "error + 'a \<Rightarrow> bool" where
  "is_metadata_error r = (case r of Inl (MystMetadataParsingError msg) \<Rightarrow> True | _ \<Rightarrow> False)"

text \<open>
  The message a token at nesting level 0 fails with, given the number of cells before it: a
  directive fence whose options cannot be read, or a block break whose content is not JSON
  or not a JSON object.
\<close>

definition token_error :: "env \<Rightarrow> string \<Rightarrow> string \<Rightarrow> token \<Rightarrow> nat \<Rightarrow> string \<Rightarrow> bool" where
  "token_error E code_directive raw_directive t index msg =
     (if is_cell_fence code_directive raw_directive t then
        (case parse_directive_text E (content t) of
           Inl err \<Rightarrow>
             msg = cell_error_message
                     (if startswith (info t) code_directive then ''Code'' else ''Raw'')
                     index (fst (tok_map t) + 1) ('' could not be read: '' @ err)
         | Inr parsed \<Rightarrow> False)
      else
        is_block_break t \<and> content t \<noteq> [] \<and>
        (case json_loads E (strip (content t)) of
           Inl err \<Rightarrow>
             msg = cell_error_message ''Markdown'' index (fst (tok_map t) + 1)
                     ('' could not be read: '' @ err)
         | Inr (PDict items) \<Rightarrow> False
         | Inr other \<Rightarrow>
             msg = cell_error_message ''Markdown'' index (fst (tok_map t) + 1)
                     '' is not a dict''))"

text \<open>The metadata of a cell apart from the line span that line tracking adds.\<close>

definition own_metadata :: "cell \<Rightarrow> pydict" where
  "own_metadata c = AList.delete (PStr ''_source_lines'') (metadata c)"

definition carries_metadata :: "cell \<Rightarrow> bool" where
  "carries_metadata c = (is_markdown c \<and> own_metadata c \<noteq> [])"

definition break_with_content :: "token \<Rightarrow> bool" where
  "break_with_content t = (is_block_break t \<and> content t \<noteq> [])"

section \<open>String lemmas\<close>

lemma drop_leading_newlines_dropWhile:
  "drop_leading_newlines str = dropWhile (\<lambda>c. c = newline) str"
  by (induction str) auto

lemma isspace_newline: "py_isspace newline"
  by (simp add: py_isspace_def newline_def)

lemma rstrip_last: "rstrip str \<noteq> [] \<Longrightarrow> \<not> py_isspace (last (rstrip str))"
  unfolding rstrip_def by (simp add: last_rev hd_dropWhile)

lemma last_dropWhile_keep: "dropWhile P xs \<noteq> [] \<Longrightarrow> last (dropWhile P xs) = last xs"
  by (induction xs) (auto split: if_splits)

lemma rstrip_append:
  "rstrip (xs @ ys) = (if list_all py_isspace ys then rstrip xs else xs @ rstrip ys)"
  by (simp add: rstrip_def dropWhile_append list_all_iff)

lemma rstrip_blank: "list_all py_isspace xs \<Longrightarrow> rstrip xs = []"
  by (simp add: rstrip_def list_all_iff)

lemma set_rstrip: "set (rstrip l) \<subseteq> set l"
  unfolding rstrip_def using set_dropWhileD by fastforce

lemma strip_blank_lines_trimmed:
  assumes "strip_blank_lines str \<noteq> []"
  shows "trimmed_source (strip_blank_lines str)"
proof -
  let ?r = "rstrip str"
  have ne: "dropWhile (\<lambda>c. c = newline) ?r \<noteq> []"
    using assms by (simp add: strip_blank_lines_def drop_leading_newlines_dropWhile)
  have h: "hd (strip_blank_lines str) \<noteq> newline"
    using hd_dropWhile[OF ne] by (simp add: strip_blank_lines_def drop_leading_newlines_dropWhile)
  from ne have "?r \<noteq> []" by auto
  then have "\<not> py_isspace (last ?r)" by (rule rstrip_last)
  then have "\<not> py_isspace (last (strip_blank_lines str))"
    using last_dropWhile_keep[OF ne]
    by (simp add: strip_blank_lines_def drop_leading_newlines_dropWhile)
  with h assms show ?thesis by (simp add: trimmed_source_def)
qed

lemma strip_blank_lines_trailing:
  "list_all py_isspace ws \<Longrightarrow> strip_blank_lines (body @ ws) = strip_blank_lines body"
  by (simp add: strip_blank_lines_def rstrip_append)

lemma strip_blank_lines_leading:
  assumes "c \<noteq> newline"
  shows "strip_blank_lines (c # cs) = rstrip (c # cs)"
proof -
  have "rstrip ([c] @ cs) = (if list_all py_isspace cs then rstrip [c] else [c] @ rstrip cs)"
    by (rule rstrip_append)
  moreover have "rstrip [c] = (if py_isspace c then [] else [c])"
    by (simp add: rstrip_def)
  ultimately have "rstrip (c # cs) = [] \<or> (\<exists>r. rstrip (c # cs) = c # r)"
    by (auto split: if_splits)
  with assms show ?thesis by (auto simp: strip_blank_lines_def)
qed

lemma join_snoc: "join sep (ls @ [l]) = (if ls = [] then l else join sep ls @ sep @ l)"
  by (induction sep ls rule: join.induct) auto

lemma join_nonempty: "ks \<noteq> [] \<Longrightarrow> hd ks \<noteq> [] \<Longrightarrow> join sep ks \<noteq> []"
  by (induction sep ks rule: join.induct) auto

lemma strip_trailing_snoc:
  "strip_trailing (ls @ [l]) = (if blank_line l then strip_trailing ls else ls @ [rstrip l])"
  by (simp add: strip_trailing_def)

lemma rstrip_join: "rstrip (join [newline] ls) = join [newline] (strip_trailing ls)"
proof (induction ls rule: rev_induct)
  case Nil
  show ?case by (simp add: strip_trailing_def rstrip_def)
next
  case (snoc l ls)
  show ?case
  proof (cases "blank_line l")
    case True
    then have sp: "list_all py_isspace ([newline] @ l)"
      by (simp add: blank_line_def isspace_newline)
    show ?thesis
    proof (cases "ls = []")
      case True
      with \<open>blank_line l\<close> show ?thesis
        by (simp add: strip_trailing_def rstrip_blank blank_line_def)
    next
      case False
      then have "rstrip (join [newline] (ls @ [l])) = rstrip (join [newline] ls @ ([newline] @ l))"
        by (simp add: join_snoc)
      also have "\<dots> = rstrip (join [newline] ls)"
        using sp by (simp only: rstrip_append if_True)
      finally show ?thesis
        using snoc True by (simp add: strip_trailing_snoc)
    qed
  next
    case False
    then have nsp: "\<not> list_all py_isspace l" by (simp add: blank_line_def)
    have r: "rstrip (xs @ l) = xs @ rstrip l" for xs
      using nsp by (simp add: rstrip_append)
    show ?thesis
    proof (cases "ls = []")
      case True
      with False show ?thesis using strip_trailing_snoc[of "[]" l] by simp
    next
      case ne: False
      have "rstrip (join [newline] (ls @ [l])) = rstrip ((join [newline] ls @ [newline]) @ l)"
        using ne by (simp add: join_snoc)
      also have "\<dots> = (join [newline] ls @ [newline]) @ rstrip l" by (rule r)
      finally show ?thesis
        using ne False by (simp add: strip_trailing_snoc join_snoc)
    qed
  qed
qed

lemma drop_newlines_join:
  "\<forall>l\<in>set ks. newline \<notin> set l \<Longrightarrow>
   drop_leading_newlines (join [newline] ks) = join [newline] (dropWhile (\<lambda>l. l = []) ks)"
proof (induction "[newline]" ks rule: join.induct)
  case 1
  show ?case by simp
next
  case (2 x)
  then show ?case by (cases x) auto
next
  case (3 x y ys)
  then show ?case by (cases x) auto
qed

lemma strip_trailing_newline_free:
  assumes "\<forall>l\<in>set ls. newline \<notin> set l"
  shows "\<forall>l\<in>set (strip_trailing ls). newline \<notin> set l"
proof (cases "dropWhile blank_line (rev ls)")
  case Nil
  show ?thesis unfolding strip_trailing_def Nil by simp
next
  case (Cons l before)
  then have "set (l # before) \<subseteq> set ls"
    by (metis set_dropWhileD set_rev subsetI)
  then show ?thesis
    using assms Cons set_rstrip[of l] by (auto simp: strip_trailing_def)
qed

lemma strip_blank_lines_join:
  assumes "\<forall>l\<in>set ls. newline \<notin> set l"
  shows "strip_blank_lines (join [newline] ls) = join [newline] (kept_lines ls)"
  using drop_newlines_join[OF strip_trailing_newline_free[OF assms]]
  by (simp add: strip_blank_lines_def rstrip_join kept_lines_def)

lemma kept_lines_join_empty: "(join sep (kept_lines ls) = []) = (kept_lines ls = [])"
proof
  assume j: "join sep (kept_lines ls) = []"
  show "kept_lines ls = []"
  proof (rule ccontr)
    assume ne: "kept_lines ls \<noteq> []"
    then have "hd (kept_lines ls) \<noteq> []"
      unfolding kept_lines_def by (rule hd_dropWhile)
    with ne j show False using join_nonempty by blast
  qed
qed simp

lemma splitlines_from_newline_free:
  "newline \<notin> set line \<Longrightarrow> \<forall>l\<in>set (splitlines_from line cs). newline \<notin> set l"
proof (induction line cs rule: splitlines_from.induct)
  case (1 line)
  then show ?case by simp
next
  case (2 line c cs)
  have nl: "py_linebreak newline" by (simp add: py_linebreak_def newline_def)
  show ?case
  proof (cases "c = CHR 0x0D")
    case True
    then show ?thesis using 2 by (cases cs) auto
  next
    case False
    then show ?thesis using 2 nl by auto
  qed
qed

lemma splitlines_newline_free: "\<forall>l\<in>set (splitlines str). newline \<notin> set l"
  unfolding splitlines_def by (rule splitlines_from_newline_free) simp

lemma slice_subset: "set (slice xs i j) \<subseteq> set xs"
  unfolding slice_def by (meson set_drop_subset set_take_subset subset_trans)

section \<open>Evaluation rules\<close>

lemmas string_defs =
  splitlines_def rstrip_def lstrip_def strip_def startswith_def slice_def newline_def
  py_isspace_def py_linebreak_def

lemmas example_defs =
  demo_env_def demo_parse_def demo_yaml_def demo_json_def cells_text_def
  cells_tokens_def cells_notebook_def indented_text_def
  indented_tokens_def json_k1_def tok_def CODE_DIRECTIVE_def RAW_DIRECTIVE_def

section \<open>The steps of the conversion\<close>

lemma flush_markdown_eq:
  "flush_markdown E lines sln start token m nbk =
     with_markdown_cell E nbk
       (strip_blank_lines (join [newline] (slice lines start (endline_of lines token))))
       (tracked_meta sln start (endline_of lines token) m)"
  by (simp add: flush_markdown_def with_markdown_cell_def endline_of_def tracked_meta_def
      new_markdown_cell_def new_cell_def from_dict_def Let_def split: option.splits)

lemma with_markdown_cell_Inr:
  assumes "with_markdown_cell E nbk src meta = Inr nb1"
  shows "nb_metadata nb1 = nb_metadata nbk"
    and "cells nb1 =
      (if src = [] then cells nbk
       else cells nbk @
         [\<lparr>cell_id = random_cell_id E (length (cells nbk)), cell_type = Markdown,
           source = src, metadata = meta\<rparr>])"
  using assms by (auto simp: with_markdown_cell_def split: if_splits option.splits)

lemma new_notebook_Inr:
  "new_notebook E meta = Inr nb0 \<Longrightarrow> nb0 = \<lparr>nb_metadata = meta, cells = []\<rparr>"
  by (auto simp: new_notebook_def split: option.splits)

lemma new_cell_Inr:
  "new_cell E kind drawn src meta = Inr c \<Longrightarrow>
   c = \<lparr>cell_id = random_cell_id E drawn, cell_type = kind, source = src, metadata = meta\<rparr>"
  by (auto simp: new_cell_def split: option.splits)

lemma scan_token_nested:
  "nesting_level s + nesting t \<noteq> 0 \<Longrightarrow>
   scan_token E lines cd rd sln s t = Inr (s\<lparr>nesting_level := nesting_level s + nesting t\<rparr>)"
  by (simp add: scan_token_def Let_def)

lemma scan_token_other:
  "\<not> is_cell_fence cd rd t \<Longrightarrow> \<not> is_block_break t \<Longrightarrow>
   scan_token E lines cd rd sln s t = Inr (s\<lparr>nesting_level := nesting_level s + nesting t\<rparr>)"
  by (auto simp: scan_token_def Let_def is_cell_fence_def is_block_break_def)

lemma block_break_not_fence: "is_block_break t \<Longrightarrow> \<not> is_cell_fence cd rd t"
  by (auto simp: is_block_break_def is_cell_fence_def)

lemma scan_token_cell_fence:
  assumes "nesting_level s + nesting t = 0" and "is_cell_fence cd rd t"
  shows "scan_token E lines cd rd sln s t =
     (case flush_markdown E lines sln (md_start_line s) (Some t) (md_metadata s) (nb s) of
        Inl err \<Rightarrow> Inl err
      | Inr nb1 \<Rightarrow>
     (case read_fenced_cell E t (length (cells nb1))
             (if startswith (info t) cd then ''Code'' else ''Raw'') of
        Inl err \<Rightarrow> Inl err
      | Inr (options, body_lines) \<Rightarrow>
     (case new_cell E (if startswith (info t) cd then Code else Raw) (length (cells nb1))
             (join [newline] body_lines) (fence_meta sln t options) of
        Inl err \<Rightarrow> Inl err
      | Inr c \<Rightarrow>
          Inr \<lparr>nesting_level = 0, md_metadata = [], md_start_line = snd (tok_map t),
               nb = nb1\<lparr>cells := cells nb1 @ [c]\<rparr>\<rparr>)))"
proof (cases "startswith (info t) cd")
  case True
  with assms show ?thesis
    unfolding scan_token_def new_code_cell_def new_raw_cell_def
    by (simp add: Let_def is_cell_fence_def)
next
  case False
  with assms show ?thesis
    unfolding scan_token_def new_code_cell_def new_raw_cell_def
    by (simp add: Let_def is_cell_fence_def)
qed

lemma scan_token_block_break:
  assumes "nesting_level s + nesting t = 0" and "is_block_break t"
  shows "scan_token E lines cd rd sln s t =
     (case flush_markdown E lines sln (md_start_line s) (Some t) (md_metadata s) (nb s) of
        Inl err \<Rightarrow> Inl err
      | Inr nb1 \<Rightarrow>
     (case read_cell_metadata E t (length (cells nb1)) of
        Inl err \<Rightarrow> Inl err
      | Inr meta \<Rightarrow>
          Inr \<lparr>nesting_level = 0, md_metadata = meta, md_start_line = snd (tok_map t),
               nb = nb1\<rparr>))"
  using assms block_break_not_fence[OF assms(2), of cd rd]
  by (simp add: scan_token_def Let_def is_block_break_def is_cell_fence_def)

lemma scan_token_level:
  assumes "scan_token E lines cd rd sln s t = Inr s'"
  shows "nesting_level s' = nesting_level s + nesting t"
proof (cases "nesting_level s + nesting t = 0")
  case False
  from scan_token_nested[OF this, of E lines cd rd sln] assms show ?thesis by auto
next
  case lvl: True
  show ?thesis
  proof (cases "is_cell_fence cd rd t")
    case True
    from scan_token_cell_fence[OF lvl True, of E lines sln] assms lvl show ?thesis
      by (auto split: sum.splits prod.splits)
  next
    case False
    show ?thesis
    proof (cases "is_block_break t")
      case True
      from scan_token_block_break[OF lvl True, of E lines cd rd sln] assms lvl show ?thesis
        by (auto split: sum.splits)
    next
      case other: False
      from scan_token_other[OF False other, of E lines sln s] assms show ?thesis by auto
    qed
  qed
qed

lemma top_level_tokens_Cons:
  "top_level_tokens level (t # ts) =
     top_level_tokens level [t] @ top_level_tokens (level + nesting t) ts"
  by simp

lemma scan_tokens_append:
  "scan_tokens E lines cd rd sln s (xs @ ys) =
     (case scan_tokens E lines cd rd sln s xs of
        Inl err \<Rightarrow> Inl err
      | Inr s1 \<Rightarrow> scan_tokens E lines cd rd sln s1 ys)"
  by (induction xs arbitrary: s) (auto split: sum.splits)

lemma scan_tokens_error_split:
  "scan_tokens E lines cd rd sln s tokens = Inl err \<Longrightarrow>
   \<exists>before t after s1. tokens = before @ t # after
      \<and> scan_tokens E lines cd rd sln s before = Inr s1
      \<and> scan_token E lines cd rd sln s1 t = Inl err"
proof (induction tokens arbitrary: s)
  case Nil
  then show ?case by simp
next
  case (Cons t ts)
  show ?case
  proof (cases "scan_token E lines cd rd sln s t")
    case (Inl e)
    with Cons.prems have "e = err" by simp
    with Inl have "t # ts = [] @ t # ts \<and> scan_tokens E lines cd rd sln s [] = Inr s
        \<and> scan_token E lines cd rd sln s t = Inl err"
      by simp
    then show ?thesis by blast
  next
    case (Inr s')
    with Cons.prems have "scan_tokens E lines cd rd sln s' ts = Inl err" by simp
    from Cons.IH[OF this] obtain before u after s1 where
      "ts = before @ u # after" and "scan_tokens E lines cd rd sln s' before = Inr s1"
      and "scan_token E lines cd rd sln s1 u = Inl err"
      by blast
    with Inr have "t # ts = (t # before) @ u # after
        \<and> scan_tokens E lines cd rd sln s (t # before) = Inr s1
        \<and> scan_token E lines cd rd sln s1 u = Inl err"
      by simp
    then show ?thesis by blast
  qed
qed

lemma scan_tokens_plain_run:
  "plain_run cd rd (nesting_level s) run \<Longrightarrow>
   scan_tokens E lines cd rd sln s run
     = Inr (s\<lparr>nesting_level := nesting_level s + sum_list (map nesting run)\<rparr>)"
proof (induction run arbitrary: s)
  case Nil
  show ?case by simp
next
  case (Cons t ts)
  let ?s1 = "s\<lparr>nesting_level := nesting_level s + nesting t\<rparr>"
  have step: "scan_token E lines cd rd sln s t = Inr ?s1"
  proof (cases "nesting_level s + nesting t = 0")
    case False
    then show ?thesis by (rule scan_token_nested)
  next
    case True
    with Cons.prems have "\<not> is_cell_fence cd rd t" and "\<not> is_block_break t"
      by (simp_all add: plain_run_def)
    then show ?thesis by (rule scan_token_other)
  qed
  have "plain_run cd rd (nesting_level ?s1) ts"
    using Cons.prems by (simp add: plain_run_def split: if_splits)
  from Cons.IH[OF this] show ?case
    by (simp add: step add.assoc)
qed

lemma read_front_matter_tokens:
  "read_front_matter E tokens = Inr (toks, start, meta) \<Longrightarrow> toks = scanned_tokens tokens"
  by (auto simp: read_front_matter_def scanned_tokens_def
      split: list.splits if_splits sum.splits yaml_error.splits)

lemma convert_tokens_Inr:
  assumes "convert_tokens E lines tokens cd rd sln = Inr nbk"
  obtains toks start meta nb0 s where
    "read_front_matter E tokens = Inr (toks, start, meta)"
    and "new_notebook E (from_dict meta) = Inr nb0"
    and "scan_tokens E lines cd rd sln (initial_state start nb0) toks = Inr s"
    and "flush_markdown E lines sln (md_start_line s) None (md_metadata s) (nb s) = Inr nbk"
  using assms by (auto simp: convert_tokens_def split: sum.splits prod.splits)

lemma convert_tail:
  assumes "read_front_matter E (parse E (str @ [newline])) = Inr (before @ run, start, meta)"
    and "new_notebook E (from_dict meta) = Inr nb0"
    and "scan_tokens E (splitlines str) cd rd sln (initial_state start nb0) before = Inr s1"
    and "plain_run cd rd (nesting_level s1) run"
  shows "myst_to_notebook E str cd rd sln =
     flush_markdown E (splitlines str) sln (md_start_line s1) None (md_metadata s1) (nb s1)"
  unfolding myst_to_notebook_def convert_tokens_def assms(1)
  by (simp add: assms(2) scan_tokens_append assms(3) scan_tokens_plain_run[OF assms(4)])


lemma slice_to_end: "slice xs i (length xs) = drop i xs"
  by (simp add: slice_def)

section \<open>The flush, line by line\<close>

lemma flush_markdown_kept_lines:
  assumes "\<forall>l\<in>set lines. newline \<notin> set l"
  shows "flush_markdown E lines sln start_line token md_meta nbk =
     (let endline = (case token of Some t \<Rightarrow> fst (tok_map t) | None \<Rightarrow> length lines);
          kept = kept_lines (slice lines start_line endline);
          meta = (if sln
                  then AList.update (PStr ''_source_lines'')
                         (PList [PInt (int start_line), PInt (int endline)]) md_meta
                  else md_meta)
      in if kept \<noteq> [] then
           (case new_markdown_cell E (length (cells nbk)) (join [newline] kept) meta of
              Inl err \<Rightarrow> Inl err
            | Inr c \<Rightarrow> Inr (nbk\<lparr>cells := cells nbk @ [c]\<rparr>))
         else Inr nbk)"
proof -
  have "\<forall>l\<in>set (slice lines i j). newline \<notin> set l" for i j
    using assms slice_subset[of lines i j] by blast
  then have "strip_blank_lines (join [newline] (slice lines i j)) =
      join [newline] (kept_lines (slice lines i j))" for i j
    by (rule strip_blank_lines_join)
  then show ?thesis
    by (simp add: flush_markdown_def Let_def from_dict_def kept_lines_join_empty)
qed

section \<open>The flush and the scan keep Markdown sources trimmed\<close>

lemma flush_markdown_ok:
  assumes "flush_markdown E lines sln start token md_meta nbk = Inr nb1"
    and "list_all markdown_ok (cells nbk)"
  shows "list_all markdown_ok (cells nb1)"
proof -
  let ?src = "strip_blank_lines (join [newline] (slice lines start (endline_of lines token)))"
  from assms(1) have w: "with_markdown_cell E nbk ?src
      (tracked_meta sln start (endline_of lines token) md_meta) = Inr nb1"
    by (simp add: flush_markdown_eq)
  show ?thesis
  proof (cases "?src = []")
    case True
    with with_markdown_cell_Inr(2)[OF w] assms(2) show ?thesis by simp
  next
    case False
    then have "trimmed_source ?src" by (rule strip_blank_lines_trimmed)
    with with_markdown_cell_Inr(2)[OF w] False assms(2) show ?thesis
      by (simp add: markdown_ok_def)
  qed
qed

lemma scan_token_ok:
  assumes "scan_token E lines cd rd sln s t = Inr s'" and "list_all markdown_ok (cells (nb s))"
  shows "list_all markdown_ok (cells (nb s'))"
proof (cases "nesting_level s + nesting t = 0")
  case False
  from scan_token_nested[OF this, of E lines cd rd sln] assms show ?thesis by auto
next
  case lvl: True
  show ?thesis
  proof (cases "is_cell_fence cd rd t")
    case True
    from scan_token_cell_fence[OF lvl True, of E lines sln] assms(1)
    obtain nb1 c kind src meta where
      fl: "flush_markdown E lines sln (md_start_line s) (Some t) (md_metadata s) (nb s) = Inr nb1"
      and c: "new_cell E kind (length (cells nb1)) src meta = Inr c"
      and kind: "kind = (if startswith (info t) cd then Code else Raw)"
      and s': "cells (nb s') = cells nb1 @ [c]"
      by (auto split: sum.splits prod.splits)
    from new_cell_Inr[OF c] kind have "\<not> is_markdown c"
      by (auto simp: is_markdown_def)
    with flush_markdown_ok[OF fl assms(2)] s' show ?thesis
      by (simp add: markdown_ok_def)
  next
    case False
    show ?thesis
    proof (cases "is_block_break t")
      case True
      from scan_token_block_break[OF lvl True, of E lines cd rd sln] assms(1)
      obtain nb1 where
        fl: "flush_markdown E lines sln (md_start_line s) (Some t) (md_metadata s) (nb s)
              = Inr nb1"
        and s': "nb s' = nb1"
        by (auto split: sum.splits)
      from flush_markdown_ok[OF fl assms(2)] s' show ?thesis by simp
    next
      case other: False
      from scan_token_other[OF False other, of E lines sln s] assms show ?thesis by auto
    qed
  qed
qed

lemma scan_tokens_ok:
  "scan_tokens E lines cd rd sln s tokens = Inr s' \<Longrightarrow> list_all markdown_ok (cells (nb s)) \<Longrightarrow>
   list_all markdown_ok (cells (nb s'))"
proof (induction tokens arbitrary: s)
  case Nil
  then show ?case by simp
next
  case (Cons t ts)
  then show ?case by (auto split: sum.splits dest: scan_token_ok)
qed

lemma convert_tokens_ok:
  assumes "convert_tokens E lines tokens cd rd sln = Inr nbk"
  shows "list_all markdown_ok (cells nbk)"
proof -
  from assms obtain toks start meta nb0 s where
    nb0: "new_notebook E (from_dict meta) = Inr nb0"
    and sc: "scan_tokens E lines cd rd sln (initial_state start nb0) toks = Inr s"
    and fl: "flush_markdown E lines sln (md_start_line s) None (md_metadata s) (nb s) = Inr nbk"
    by (rule convert_tokens_Inr)
  have "list_all markdown_ok (cells (nb (initial_state start nb0)))"
    using new_notebook_Inr[OF nb0] by (simp add: initial_state_def)
  from scan_tokens_ok[OF sc this] have "list_all markdown_ok (cells (nb s))" .
  with fl show ?thesis by (rule flush_markdown_ok)
qed

lemma cells_example_converts:
  "myst_to_notebook demo_env cells_text CODE_DIRECTIVE RAW_DIRECTIVE False = Inr cells_notebook"
  by code_simp

text \<open>
  Claim C10. Every Markdown cell of a converted notebook has a source that is not empty,
  does not begin with a newline and does not end with a whitespace character. The reason is
  \<open>rstrip\<close>: whitespace after the last content character is removed whatever it is, spaces
  and tabs on the last content line as well as blank lines; at the front only newline
  characters are removed, so a text that starts with any other character, a space for one,
  keeps its beginning.
\<close>

theorem markdown_cells_trimmed:
  "(myst_to_notebook E str cd rd sln = Inr nbk \<longrightarrow>
      (\<forall>c\<in>set (cells nbk). cell_type c = Markdown \<longrightarrow>
         source c \<noteq> [] \<and> hd (source c) \<noteq> newline \<and> \<not> py_isspace (last (source c))))
   \<and> (list_all py_isspace ws \<longrightarrow> strip_blank_lines (body @ ws) = strip_blank_lines body)
   \<and> (c0 \<noteq> newline \<longrightarrow> strip_blank_lines (c0 # cs) = rstrip (c0 # cs))"
proof (intro conjI impI)
  assume "myst_to_notebook E str cd rd sln = Inr nbk"
  then have "list_all markdown_ok (cells nbk)"
    unfolding myst_to_notebook_def by (rule convert_tokens_ok)
  then show "\<forall>c\<in>set (cells nbk). cell_type c = Markdown \<longrightarrow>
         source c \<noteq> [] \<and> hd (source c) \<noteq> newline \<and> \<not> py_isspace (last (source c))"
    by (simp add: list_all_iff markdown_ok_def is_markdown_def trimmed_source_def)
next
  assume "list_all py_isspace ws"
  then show "strip_blank_lines (body @ ws) = strip_blank_lines body"
    by (rule strip_blank_lines_trailing)
next
  assume "c0 \<noteq> newline"
  then show "strip_blank_lines (c0 # cs) = rstrip (c0 # cs)"
    by (rule strip_blank_lines_leading)
qed

theorem markdown_cells_trimmed_witness:
  "myst_to_notebook demo_env cells_text CODE_DIRECTIVE RAW_DIRECTIVE False = Inr cells_notebook
   \<and> list_all (\<lambda>c. cell_type c = Markdown \<longrightarrow>
         source c \<noteq> [] \<and> hd (source c) \<noteq> newline \<and> \<not> py_isspace (last (source c)))
       (cells cells_notebook)
   \<and> strip_blank_lines (''a'' @ [CHR 0x20, CHR 0x09, newline, newline]) = strip_blank_lines ''a''
   \<and> strip_blank_lines (CHR 0x20 # CHR 0x20 # newline # ''a'') = rstrip (CHR 0x20 # CHR 0x20 # newline # ''a'')
   \<and> rstrip (CHR 0x20 # CHR 0x20 # newline # ''a'') = CHR 0x20 # CHR 0x20 # newline # ''a''"
proof -
  have conv: "myst_to_notebook demo_env cells_text CODE_DIRECTIVE RAW_DIRECTIVE False
      = Inr cells_notebook"
    by (rule cells_example_converts)
  have ws: "list_all py_isspace [CHR 0x20, CHR 0x09, newline, newline]"
    by (simp add: py_isspace_def newline_def)
  have sp: "CHR 0x20 \<noteq> newline"
    by (simp add: newline_def)
  have r: "rstrip (CHR 0x20 # CHR 0x20 # newline # ''a'') = CHR 0x20 # CHR 0x20 # newline # ''a''"
    by (simp add: rstrip_def py_isspace_def)
  note inst = markdown_cells_trimmed[of demo_env cells_text CODE_DIRECTIVE RAW_DIRECTIVE False
      cells_notebook "[CHR 0x20, CHR 0x09, newline, newline]" "''a''" "CHR 0x20"
      "CHR 0x20 # newline # ''a''"]
  from inst conv ws sp r show ?thesis unfolding list_all_iff by blast
qed

text \<open>
  Claim C8, as stated: the flush removes the leading and the trailing blank lines of the
  slice. It does not hold. On the two lines \<open>" "\<close> and \<open>"a "\<close> the blank first line stays
  and the last line loses its trailing space.
\<close>

theorem flush_blank_lines_counterexample:
  "flush_markdown demo_env ['' '', ''a ''] False 0 None [] \<lparr>nb_metadata = PDict [], cells = []\<rparr>
     = Inr \<lparr>nb_metadata = PDict [],
            cells = [\<lparr>cell_id = ''id0'', cell_type = Markdown,
                      source = '' '' @ [newline] @ ''a'', metadata = []\<rparr>]\<rparr>
   \<and> flush_markdown_spec demo_env ['' '', ''a ''] False 0 None []
       \<lparr>nb_metadata = PDict [], cells = []\<rparr>
     = Inr \<lparr>nb_metadata = PDict [],
            cells = [\<lparr>cell_id = ''id0'', cell_type = Markdown, source = ''a '',
                      metadata = []\<rparr>]\<rparr>"
  by code_simp

text \<open>
  Claim C8, amended. The flush slices the lines from the start line to the end line (end
  exclusive) and joins them with newlines. From that text it removes all trailing
  whitespace, which takes the trailing blank lines and also the spaces and tabs that end the
  last line left, and all leading newline characters, which takes the leading empty lines
  but not a leading line that holds spaces. It appends one Markdown cell when lines are left,
  unless the notebook library refuses the cell, and nothing otherwise.
\<close>

theorem flush_markdown_lines:
  "flush_markdown E (splitlines str) sln start_line token md_meta nbk =
     (let endline = (case token of Some t \<Rightarrow> fst (tok_map t) | None \<Rightarrow> length (splitlines str));
          kept = kept_lines (slice (splitlines str) start_line endline);
          meta = (if sln
                  then AList.update (PStr ''_source_lines'')
                         (PList [PInt (int start_line), PInt (int endline)]) md_meta
                  else md_meta)
      in if kept \<noteq> [] then
           (case new_markdown_cell E (length (cells nbk)) (join [newline] kept) meta of
              Inl err \<Rightarrow> Inl err
            | Inr c \<Rightarrow> Inr (nbk\<lparr>cells := cells nbk @ [c]\<rparr>))
         else Inr nbk)"
  using splitlines_newline_free by (rule flush_markdown_kept_lines)

lemma demo_markdown_cell:
  "new_markdown_cell demo_env 0 [CHR 0x20, newline, CHR ''a''] []
     = Inr \<lparr>cell_id = ''id0'', cell_type = Markdown, source = [CHR 0x20, newline, CHR ''a''],
            metadata = []\<rparr>"
  by code_simp

theorem flush_markdown_lines_witness:
  "flush_markdown demo_env (splitlines padded_text) False 0 None []
     \<lparr>nb_metadata = PDict [], cells = []\<rparr>
   = Inr \<lparr>nb_metadata = PDict [],
          cells = [\<lparr>cell_id = ''id0'', cell_type = Markdown,
                    source = join [newline] ['' '', ''a''], metadata = []\<rparr>]\<rparr>
   \<and> flush_markdown demo_env (splitlines blank_text) False 0 None []
       \<lparr>nb_metadata = PDict [], cells = []\<rparr>
   = Inr \<lparr>nb_metadata = PDict [], cells = []\<rparr>"
proof -
  have k1: "kept_lines (slice (splitlines padded_text) 0 (length (splitlines padded_text)))
      = ['' '', ''a'']"
    by (simp add: padded_text_def kept_lines_def strip_trailing_def blank_line_def string_defs)
  have k2: "kept_lines (slice (splitlines blank_text) 0 (length (splitlines blank_text))) = []"
    by (simp add: blank_text_def kept_lines_def strip_trailing_def blank_line_def string_defs)
  show ?thesis
    using flush_markdown_lines[of demo_env padded_text False 0 None "[]"
        "\<lparr>nb_metadata = PDict [], cells = []\<rparr>"]
      flush_markdown_lines[of demo_env blank_text False 0 None "[]"
        "\<lparr>nb_metadata = PDict [], cells = []\<rparr>"]
    by (simp add: k1 k2 Let_def demo_markdown_cell)
qed

section \<open>Which tokens become cells\<close>


















lemma nested_example_cell:
  "with_markdown_cell demo_env (nb nested_state)
     (strip_blank_lines (join [newline]
        ([''- item'', []] @ [''  ```{raw-cell}'', ''  y'', ''  ```''] @ [])))
     (tracked_meta False (md_start_line nested_state) (length (splitlines cells_text))
        (md_metadata nested_state))
   = Inr cells_notebook"
  by code_simp



section \<open>A document without cell boundaries\<close>

text \<open>
  Claim C2, as stated: without top-level directive fences and block breaks the notebook has
  one Markdown cell whose source is the whitespace-trimmed input. It does not hold. The
  text \<open>" a"\<close> is one paragraph; its cell keeps the leading space, and the trimmed input is
  \<open>"a"\<close>.
\<close>

theorem whitespace_trimmed_counterexample:
  "list_all (\<lambda>t. \<not> is_cell_fence CODE_DIRECTIVE RAW_DIRECTIVE t \<and> \<not> is_block_break t)
     (top_level_tokens 0 (parse demo_env (indented_text @ [newline])))
   \<and> myst_to_notebook demo_env indented_text CODE_DIRECTIVE RAW_DIRECTIVE False
     = Inr \<lparr>nb_metadata = PDict [],
            cells = [\<lparr>cell_id = ''id0'', cell_type = Markdown, source = '' a'',
                      metadata = []\<rparr>]\<rparr>
   \<and> strip indented_text = ''a''"
  by code_simp

text \<open>
  Claim C2, amended. Take a text whose token stream is not empty, whose front matter, if
  there is one, parses, and whose tokens at nesting level 0 hold no directive fence and no
  block break. When the notebook library refuses the front matter as the metadata of a
  notebook (an empty front matter, which parses to \<open>None\<close>, is one it may refuse),
  \<open>myst_to_notebook\<close> raises its validation error. Otherwise the source is the text's lines
  after the front matter, joined by newlines, without the trailing whitespace and without
  the leading newline characters; other leading whitespace stays. When that source is empty
  the notebook has no cell. When it is not, the notebook has exactly one cell, a Markdown
  cell with that source and a fresh id, unless the library refuses the cell, whose
  validation error is then raised.
\<close>

theorem no_boundaries_one_markdown_cell:
  assumes "read_front_matter E (parse E (str @ [newline])) = Inr (tokens, start, metadata_nb)"
    and "plain_run cd rd 0 tokens"
  shows "myst_to_notebook E str cd rd sln =
     (case validate_notebook E metadata_nb of
        Some msg \<Rightarrow> Inl (NotebookValidationError msg)
      | None \<Rightarrow>
          (let src = strip_blank_lines (join [newline] (drop start (splitlines str)));
               meta = (if sln
                       then [(PStr ''_source_lines'',
                              PList [PInt (int start), PInt (int (length (splitlines str)))])]
                       else [])
           in if src = [] then Inr \<lparr>nb_metadata = metadata_nb, cells = []\<rparr>
              else (case validate_cell E Markdown src meta of
                      Some msg \<Rightarrow> Inl (NotebookValidationError msg)
                    | None \<Rightarrow>
                        Inr \<lparr>nb_metadata = metadata_nb,
                             cells = [\<lparr>cell_id = random_cell_id E 0, cell_type = Markdown,
                                       source = src, metadata = meta\<rparr>]\<rparr>)))"
proof (cases "validate_notebook E metadata_nb")
  case (Some msg)
  then show ?thesis
    unfolding myst_to_notebook_def convert_tokens_def assms(1)
    by (simp add: new_notebook_def from_dict_def)
next
  case None
  let ?nb0 = "\<lparr>nb_metadata = metadata_nb, cells = []\<rparr>"
  have nb0: "new_notebook E (from_dict metadata_nb) = Inr ?nb0"
    using None by (simp add: new_notebook_def from_dict_def)
  have fm: "read_front_matter E (parse E (str @ [newline])) = Inr ([] @ tokens, start, metadata_nb)"
    using assms(1) by simp
  have sc: "scan_tokens E (splitlines str) cd rd sln (initial_state start ?nb0) []
      = Inr (initial_state start ?nb0)"
    by simp
  have run: "plain_run cd rd (nesting_level (initial_state start ?nb0)) tokens"
    using assms(2) by (simp add: initial_state_def)
  have "myst_to_notebook E str cd rd sln
      = flush_markdown E (splitlines str) sln start None [] ?nb0"
    using convert_tail[OF fm nb0 sc run] by (simp add: initial_state_def)
  then show ?thesis
    using None
    by (simp add: flush_markdown_eq with_markdown_cell_def endline_of_def tracked_meta_def
        slice_to_end Let_def split: option.splits)
qed

lemma indented_example_front_matter:
  "read_front_matter demo_env (parse demo_env (indented_text @ [newline]))
     = Inr (indented_tokens, 0, PDict [])"
  by code_simp

lemma indented_example_run: "plain_run CODE_DIRECTIVE RAW_DIRECTIVE 0 indented_tokens"
  by code_simp

lemma empty_front_example_front_matter:
  "read_front_matter demo_env (parse demo_env (empty_front_text @ [newline]))
     = Inr (body_tokens 2, 2, PNone)"
  by code_simp

lemma empty_front_example_run: "plain_run CODE_DIRECTIVE RAW_DIRECTIVE 0 (body_tokens 2)"
  by code_simp

lemma indented_example_result:
  "(case validate_notebook demo_env (PDict []) of
      Some msg \<Rightarrow> Inl (NotebookValidationError msg)
    | None \<Rightarrow>
        (let src = strip_blank_lines (join [newline] (drop 0 (splitlines indented_text)));
             meta = (if True
                     then [(PStr ''_source_lines'',
                            PList [PInt (int 0), PInt (int (length (splitlines indented_text)))])]
                     else [])
         in if src = [] then Inr \<lparr>nb_metadata = PDict [], cells = []\<rparr>
            else (case validate_cell demo_env Markdown src meta of
                    Some msg \<Rightarrow> Inl (NotebookValidationError msg)
                  | None \<Rightarrow>
                      Inr \<lparr>nb_metadata = PDict [],
                           cells = [\<lparr>cell_id = random_cell_id demo_env 0, cell_type = Markdown,
                                     source = src, metadata = meta\<rparr>]\<rparr>)))
   = Inr \<lparr>nb_metadata = PDict [],
          cells = [\<lparr>cell_id = ''id0'', cell_type = Markdown, source = '' a'',
                    metadata = [(PStr ''_source_lines'', PList [PInt 0, PInt 1])]\<rparr>]\<rparr>"
  by code_simp

lemma empty_front_example_refused:
  "validate_notebook demo_env PNone = Some ''metadata is not of type object''"
  by code_simp

theorem no_boundaries_one_markdown_cell_witness:
  "read_front_matter demo_env (parse demo_env (indented_text @ [newline]))
     = Inr (indented_tokens, 0, PDict [])
   \<and> plain_run CODE_DIRECTIVE RAW_DIRECTIVE 0 indented_tokens
   \<and> myst_to_notebook demo_env indented_text CODE_DIRECTIVE RAW_DIRECTIVE True
     = Inr \<lparr>nb_metadata = PDict [],
            cells = [\<lparr>cell_id = ''id0'', cell_type = Markdown, source = '' a'',
                      metadata = [(PStr ''_source_lines'', PList [PInt 0, PInt 1])]\<rparr>]\<rparr>
   \<and> read_front_matter demo_env (parse demo_env (empty_front_text @ [newline]))
     = Inr (body_tokens 2, 2, PNone)
   \<and> plain_run CODE_DIRECTIVE RAW_DIRECTIVE 0 (body_tokens 2)
   \<and> myst_to_notebook demo_env empty_front_text CODE_DIRECTIVE RAW_DIRECTIVE False
     = Inl (NotebookValidationError ''metadata is not of type object'')"
proof -
  have a: "myst_to_notebook demo_env indented_text CODE_DIRECTIVE RAW_DIRECTIVE True
     = Inr \<lparr>nb_metadata = PDict [],
            cells = [\<lparr>cell_id = ''id0'', cell_type = Markdown, source = '' a'',
                      metadata = [(PStr ''_source_lines'', PList [PInt 0, PInt 1])]\<rparr>]\<rparr>"
    unfolding no_boundaries_one_markdown_cell[OF indented_example_front_matter
        indented_example_run, of True]
    by (rule indented_example_result)
  have b: "myst_to_notebook demo_env empty_front_text CODE_DIRECTIVE RAW_DIRECTIVE False
     = Inl (NotebookValidationError ''metadata is not of type object'')"
    unfolding no_boundaries_one_markdown_cell[OF empty_front_example_front_matter
        empty_front_example_run, of False]
    by (simp add: empty_front_example_refused)
  from indented_example_front_matter indented_example_run a
    empty_front_example_front_matter empty_front_example_run b
  show ?thesis by blast
qed

text \<open>
  A text for which the tokenizer returns no token, a blank one for instance, does not reach
  the loop: \<open>tokens[0]\<close> raises \<open>IndexError\<close>.
\<close>

lemma no_tokens_raises:
  "parse E (str @ [newline]) = [] \<Longrightarrow>
   myst_to_notebook E str cd rd sln = Inl (IndexError ''list index out of range'')"
  by (simp add: myst_to_notebook_def convert_tokens_def read_front_matter_def)

text \<open>
  A cell that the notebook library refuses ends the conversion too: a block break whose
  metadata gives a string for the tag list, before a paragraph.
\<close>

lemma refused_cell_raises:
  "myst_to_notebook demo_env tagged_text CODE_DIRECTIVE RAW_DIRECTIVE False
     = Inl (NotebookValidationError ''tags is not of type array'')"
  by code_simp

section \<open>Dialect detection\<close>

lemma is_myst_notebook_no_front_matter:
  "splitlines str = [] \<or> \<not> startswith (hd (splitlines str)) ''---'' \<Longrightarrow>
   is_myst_notebook E str = Inr False"
  by (auto simp: is_myst_notebook_def)

lemma is_myst_notebook_front_matter:
  assumes "splitlines str = first # rest" and "startswith first ''---''"
    and "yaml_safe_load E (join [newline] (yaml_lines_of rest)) = Inr front_matter"
    and "py_get front_matter ''jupytext'' (PDict []) = Inr jupytext"
    and "py_get jupytext ''text_representation'' (PDict []) = Inr text_representation"
    and "py_get text_representation ''format_name'' PNone = Inr format_name"
  shows "is_myst_notebook E str =
     (if format_name \<noteq> PStr ''myst'' then Inr False
      else case py_get front_matter ''kernelspec'' (PDict []) of
        Inl err \<Rightarrow> Inl err
      | Inr kernelspec \<Rightarrow>
          (case py_in ''name'' kernelspec of
             Inl err \<Rightarrow> Inl err
           | Inr has_name \<Rightarrow>
               if \<not> has_name then
                 Inl (IOError
                   ''A myst notebook text-representation requires kernelspec/name metadata'')
               else
                 (case py_in ''display_name'' kernelspec of
                    Inl err \<Rightarrow> Inl err
                  | Inr has_display_name \<Rightarrow>
                      if \<not> has_display_name then
                        Inl (IOError
                          ''A myst notebook text-representation requires kernelspec/display_name metadata'')
                      else Inr True)))"
  using assms by (simp add: is_myst_notebook_def)

lemma no_kernelspec_lines:
  "splitlines no_kernelspec_text = ''---'' # (myst_header @ [''---'', ''body''])"
  by (simp add: no_kernelspec_text_def myst_header_def string_defs)

lemma notebook_lines:
  "splitlines notebook_text = ''---'' # (myst_header @ kernel_header @ [''---'', ''body''])"
  by (simp add: notebook_text_def myst_header_def kernel_header_def string_defs)

lemma titled_lines: "splitlines titled_text = ''---'' # [''title: x'', ''---'', ''body'']"
  by (simp add: titled_text_def string_defs)

lemma malformed_lines: "splitlines malformed_text = ''---'' # [''a: ['', ''---'', ''body'']"
  by (simp add: malformed_text_def string_defs)

lemma empty_front_lines: "splitlines empty_front_text = ''---'' # [''---'', ''body'']"
  by (simp add: empty_front_text_def string_defs)

lemma yaml_lines_myst_header: "yaml_lines_of (myst_header @ [''---'', ''body'']) = myst_header"
  by (simp add: myst_header_def startswith_def)

lemma yaml_lines_notebook:
  "yaml_lines_of (myst_header @ kernel_header @ [''---'', ''body'']) = myst_header @ kernel_header"
  by (simp add: myst_header_def kernel_header_def startswith_def)

lemma demo_yaml_myst_header: "demo_yaml (join [newline] myst_header) = Inr myst_meta"
  by (simp add: demo_yaml_def)

lemma demo_yaml_notebook:
  "demo_yaml (join [newline] (myst_header @ kernel_header)) = Inr notebook_meta"
  by (simp add: demo_yaml_def myst_header_def kernel_header_def newline_def)

text \<open>
  Claim C5, as stated: once the format name is the dialect tag, a missing kernelspec field
  makes the detection raise \<open>MetadataParsingError\<close>. It does not hold: the front matter
  with the tag and no kernelspec raises \<open>IOError\<close>.
\<close>

theorem missing_kernelspec_counterexample:
  "is_myst_notebook demo_env no_kernelspec_text
     = Inl (IOError ''A myst notebook text-representation requires kernelspec/name metadata'')
   \<and> \<not> is_metadata_error (is_myst_notebook demo_env no_kernelspec_text)"
proof -
  have "is_myst_notebook demo_env no_kernelspec_text
     = Inl (IOError ''A myst notebook text-representation requires kernelspec/name metadata'')"
    by (simp add: is_myst_notebook_def no_kernelspec_lines yaml_lines_myst_header demo_env_def
        demo_yaml_myst_header myst_meta_def py_get_def py_in_def startswith_def)
  then show ?thesis by (simp add: is_metadata_error_def)
qed

text \<open>
  Claim C5, amended. For every input whose front matter parses to a mapping whose
  \<open>jupytext.text_representation.format_name\<close> is the dialect tag and whose kernelspec is
  missing or a mapping, the detection raises \<open>IOError\<close> when \<open>kernelspec.name\<close> is absent
  and, failing that, when \<open>kernelspec.display_name\<close> is absent; the message names the
  field. It is a hard error, not a classification as another dialect; with both fields the
  detection returns True.
\<close>

theorem missing_kernelspec_raises_IOError:
  assumes "splitlines str = first # rest" and "startswith first ''---''"
    and "yaml_safe_load E (join [newline] (yaml_lines_of rest)) = Inr front_matter"
    and "py_get front_matter ''jupytext'' (PDict []) = Inr jupytext"
    and "py_get jupytext ''text_representation'' (PDict []) = Inr text_representation"
    and "py_get text_representation ''format_name'' PNone = Inr (PStr ''myst'')"
    and "py_get front_matter ''kernelspec'' (PDict []) = Inr (PDict kernelspec)"
  shows "is_myst_notebook E str =
     (if PStr ''name'' \<notin> set (map fst kernelspec) then
        Inl (IOError ''A myst notebook text-representation requires kernelspec/name metadata'')
      else if PStr ''display_name'' \<notin> set (map fst kernelspec) then
        Inl (IOError
          ''A myst notebook text-representation requires kernelspec/display_name metadata'')
      else Inr True)"
  using is_myst_notebook_front_matter[OF assms(1-6)] assms(7)
  by (simp add: py_in_def)

theorem missing_kernelspec_raises_IOError_witness:
  "is_myst_notebook demo_env no_kernelspec_text
     = Inl (IOError ''A myst notebook text-representation requires kernelspec/name metadata'')
   \<and> is_myst_notebook demo_env notebook_text = Inr True"
proof -
  have y1: "yaml_safe_load demo_env (join [newline] (yaml_lines_of (myst_header @ [''---'', ''body'']))) = Inr myst_meta"
    by (simp add: yaml_lines_myst_header demo_env_def demo_yaml_myst_header)
  have y2: "yaml_safe_load demo_env
      (join [newline] (yaml_lines_of (myst_header @ kernel_header @ [''---'', ''body''])))
      = Inr notebook_meta"
    by (simp add: yaml_lines_notebook demo_env_def demo_yaml_notebook)
  have d: "startswith ''---'' ''---''" by (simp add: startswith_def)
  have a: "is_myst_notebook demo_env no_kernelspec_text
     = Inl (IOError ''A myst notebook text-representation requires kernelspec/name metadata'')"
    using missing_kernelspec_raises_IOError[OF no_kernelspec_lines d y1,
        of "PDict [(PStr ''text_representation'', PDict [(PStr ''format_name'', PStr ''myst'')])]"
           "PDict [(PStr ''format_name'', PStr ''myst'')]" "[]"]
    by (simp add: myst_meta_def py_get_def)
  have b: "is_myst_notebook demo_env notebook_text = Inr True"
    using missing_kernelspec_raises_IOError[OF notebook_lines d y2,
        of "PDict [(PStr ''text_representation'', PDict [(PStr ''format_name'', PStr ''myst'')])]"
           "PDict [(PStr ''format_name'', PStr ''myst'')]"
           "[(PStr ''display_name'', PStr ''Python 3''), (PStr ''name'', PStr ''python3'')]"]
    by (simp add: notebook_meta_def py_get_def)
  from a b show ?thesis by blast
qed

text \<open>
  Claim C6: a front matter that is absent, malformed or of another format makes the
  detection return False without an error. The code does so for an absent front matter and
  for one that parses to a mapping of another format, and fails for a malformed one: the
  call of \<open>yaml.safe_load\<close> has no handler, so the error of the YAML parser leaves the
  function, and an empty front matter, which parses to \<open>None\<close>, fails at the first \<open>get\<close>
  with \<open>AttributeError\<close>. The chain of \<open>get\<close> with \<open>{}\<close> defaults is there to tolerate
  missing data, and \<open>myst_to_notebook\<close> catches the same YAML errors on the same front
  matter, so the failure is a defect of the code, shown here on the two inputs.
\<close>

theorem malformed_front_matter_raises:
  "is_myst_notebook demo_env malformed_text
     = Inl (YAMLError (ParserError ''while parsing a flow node''))
   \<and> is_myst_notebook demo_env empty_front_text = Inl (AttributeError ''get'')"
  by (simp add: is_myst_notebook_def malformed_lines empty_front_lines demo_env_def
      demo_yaml_def py_get_def startswith_def myst_header_def kernel_header_def)

text \<open>
  The rest of the claim holds: without front matter, and with a front matter that parses to
  a mapping in which \<open>jupytext\<close> and \<open>text_representation\<close>, where present, are mappings
  and \<open>format_name\<close> is missing or is not the dialect tag, the detection returns False.
\<close>

lemma is_myst_notebook_other_format:
  assumes "splitlines str = first # rest" and "startswith first ''---''"
    and "yaml_safe_load E (join [newline] (yaml_lines_of rest)) = Inr front_matter"
    and "py_get front_matter ''jupytext'' (PDict []) = Inr jupytext"
    and "py_get jupytext ''text_representation'' (PDict []) = Inr text_representation"
    and "py_get text_representation ''format_name'' PNone = Inr format_name"
    and "format_name \<noteq> PStr ''myst''"
  shows "is_myst_notebook E str = Inr False"
  using assms by (simp add: is_myst_notebook_def)

lemma is_myst_notebook_examples:
  "is_myst_notebook demo_env indented_text = Inr False
   \<and> is_myst_notebook demo_env [] = Inr False
   \<and> is_myst_notebook demo_env titled_text = Inr False"
  by code_simp

lemma is_myst_notebook_malformed:
  assumes "splitlines str = first # rest" and "startswith first ''---''"
    and "yaml_safe_load E (join [newline] (yaml_lines_of rest)) = Inl err"
  shows "is_myst_notebook E str = Inl (YAMLError err)"
  using assms by (simp add: is_myst_notebook_def)

section \<open>Errors of the scan\<close>

lemma read_cell_metadata_cases:
  "read_cell_metadata E t index =
     (if content t = [] then Inr []
      else case json_loads E (strip (content t)) of
        Inl err \<Rightarrow>
          Inl (MystMetadataParsingError
                (cell_error_message ''Markdown'' index (fst (tok_map t) + 1)
                   ('' could not be read: '' @ err)))
      | Inr (PDict items) \<Rightarrow> Inr items
      | Inr other \<Rightarrow>
          Inl (MystMetadataParsingError
                (cell_error_message ''Markdown'' index (fst (tok_map t) + 1)
                   '' is not a dict'')))"
  by (simp add: read_cell_metadata_def cell_error_message_def split: sum.splits pyval.splits)

lemma scan_error_aborts:
  assumes "read_front_matter E (parse E (str @ [newline])) = Inr (before @ t # after, start, meta)"
    and "new_notebook E (from_dict meta) = Inr nb0"
    and "scan_tokens E (splitlines str) cd rd sln (initial_state start nb0) before = Inr s1"
    and "scan_token E (splitlines str) cd rd sln s1 t = Inl err"
  shows "myst_to_notebook E str cd rd sln = Inl err"
  unfolding myst_to_notebook_def convert_tokens_def assms(1)
  by (simp add: assms(2) scan_tokens_append assms(3,4))

lemma scan_token_break_read:
  assumes "nesting_level s1 + nesting t = 0" and "is_block_break t"
    and "flush_markdown E lines sln (md_start_line s1) (Some t) (md_metadata s1) (nb s1) = Inr nb1"
  shows "scan_token E lines cd rd sln s1 t =
     (case read_cell_metadata E t (length (cells nb1)) of
        Inl err \<Rightarrow> Inl err
      | Inr meta \<Rightarrow>
          Inr \<lparr>nesting_level = 0, md_metadata = meta, md_start_line = snd (tok_map t),
               nb = nb1\<rparr>)"
  unfolding scan_token_block_break[OF assms(1,2)] assms(3) by simp

lemma scan_token_break_refused:
  assumes "nesting_level s1 + nesting t = 0" and "is_block_break t"
    and "flush_markdown E lines sln (md_start_line s1) (Some t) (md_metadata s1) (nb s1) = Inl e"
  shows "scan_token E lines cd rd sln s1 t = Inl e"
  unfolding scan_token_block_break[OF assms(1,2)] assms(3) by simp

text \<open>
  Claim C3, as stated: every block break with content that is not a JSON object raises
  \<open>MystMetadataParsingError\<close>. It does not hold. A block break inside a block quote is
  reached at nesting level 1, so the loop skips it: its content, which is not JSON, is never
  parsed, nothing is raised, and the conversion returns a notebook with the quote as one
  Markdown cell.
\<close>

theorem nested_break_counterexample:
  "parse demo_env (quoted_break_text @ [newline])
     = [tok ''blockquote_open'' 1 [] [] (0, 1),
        tok ''myst_block_break'' 0 [] json_bad (0, 1),
        tok ''blockquote_close'' (- 1) [] [] (0, 0)]
   \<and> is_block_break (tok ''myst_block_break'' 0 [] json_bad (0, 1))
   \<and> json_loads demo_env (strip (content (tok ''myst_block_break'' 0 [] json_bad (0, 1))))
     = Inl ''Expecting property name enclosed in double quotes''
   \<and> myst_to_notebook demo_env quoted_break_text CODE_DIRECTIVE RAW_DIRECTIVE False
     = Inr \<lparr>nb_metadata = PDict [],
            cells = [\<lparr>cell_id = ''id0'', cell_type = Markdown,
                      source = ''> +++ '' @ json_bad, metadata = []\<rparr>]\<rparr>"
  by code_simp

text \<open>
  Claim C3, amended. A block break with empty content gives the empty map. Otherwise its
  content, stripped, is parsed as JSON: an object becomes the pending metadata, and a parse
  failure or a value that is not an object raises \<open>MystMetadataParsingError\<close>, whose
  message names the Markdown cell by the index it is called with and the token's line plus
  one. In the scan this holds for the block breaks reached at nesting level 0. Such a break
  is read after the pending Markdown is flushed: when the notebook library refuses the cell
  of that flush, the scan ends with the validation error and the break is not read;
  otherwise the index is the number of cells after the flush, on success the result is the
  pending metadata, and on failure the scan and the conversion end with that error, so no
  notebook and no further cell is produced. A block break at which the nesting level is not
  0 is skipped: the level changes, nothing is parsed and nothing is raised.
\<close>

theorem block_break_metadata:
  "(content t = [] \<longrightarrow> read_cell_metadata E t index = Inr [])
   \<and> (content t \<noteq> [] \<and> json_loads E (strip (content t)) = Inl err \<longrightarrow>
        read_cell_metadata E t index =
          Inl (MystMetadataParsingError
                (cell_error_message ''Markdown'' index (fst (tok_map t) + 1)
                   ('' could not be read: '' @ err))))
   \<and> (content t \<noteq> [] \<and> json_loads E (strip (content t)) = Inr v \<and> (\<forall>items. v \<noteq> PDict items) \<longrightarrow>
        read_cell_metadata E t index =
          Inl (MystMetadataParsingError
                (cell_error_message ''Markdown'' index (fst (tok_map t) + 1)
                   '' is not a dict'')))
   \<and> (content t \<noteq> [] \<and> json_loads E (strip (content t)) = Inr (PDict items) \<longrightarrow>
        read_cell_metadata E t index = Inr items)
   \<and> (scan_tokens E lines cd rd sln s before = Inr s1 \<and> nesting_level s1 + nesting t = 0
        \<and> is_block_break t
        \<and> flush_markdown E lines sln (md_start_line s1) (Some t) (md_metadata s1) (nb s1)
            = Inr nb1 \<longrightarrow>
        (case read_cell_metadata E t (length (cells nb1)) of
           Inl e \<Rightarrow> scan_tokens E lines cd rd sln s (before @ t # after) = Inl e
         | Inr meta \<Rightarrow>
             scan_tokens E lines cd rd sln s (before @ [t]) =
               Inr \<lparr>nesting_level = 0, md_metadata = meta, md_start_line = snd (tok_map t),
                    nb = nb1\<rparr>))
   \<and> (scan_tokens E lines cd rd sln s before = Inr s1 \<and> nesting_level s1 + nesting t = 0
        \<and> is_block_break t
        \<and> flush_markdown E lines sln (md_start_line s1) (Some t) (md_metadata s1) (nb s1)
            = Inl e0 \<longrightarrow>
        scan_tokens E lines cd rd sln s (before @ t # after) = Inl e0)
   \<and> (read_front_matter E (parse E (str @ [newline])) = Inr (before @ t # after, start, meta_nb)
        \<and> new_notebook E (from_dict meta_nb) = Inr nb0
        \<and> scan_tokens E (splitlines str) cd rd sln (initial_state start nb0) before = Inr s1
        \<and> nesting_level s1 + nesting t = 0 \<and> is_block_break t
        \<and> flush_markdown E (splitlines str) sln (md_start_line s1) (Some t) (md_metadata s1)
            (nb s1) = Inr nb1
        \<and> read_cell_metadata E t (length (cells nb1)) = Inl e1 \<longrightarrow>
        myst_to_notebook E str cd rd sln = Inl e1)
   \<and> (nesting_level s1 + nesting t \<noteq> 0 \<longrightarrow>
        scan_token E lines cd rd sln s1 t
          = Inr (s1\<lparr>nesting_level := nesting_level s1 + nesting t\<rparr>))"
proof (intro conjI impI)
  assume "content t = []"
  then show "read_cell_metadata E t index = Inr []"
    by (simp add: read_cell_metadata_cases)
next
  assume "content t \<noteq> [] \<and> json_loads E (strip (content t)) = Inl err"
  then show "read_cell_metadata E t index =
      Inl (MystMetadataParsingError
            (cell_error_message ''Markdown'' index (fst (tok_map t) + 1)
               ('' could not be read: '' @ err)))"
    by (simp add: read_cell_metadata_cases)
next
  assume "content t \<noteq> [] \<and> json_loads E (strip (content t)) = Inr v \<and> (\<forall>items. v \<noteq> PDict items)"
  then show "read_cell_metadata E t index =
      Inl (MystMetadataParsingError
            (cell_error_message ''Markdown'' index (fst (tok_map t) + 1) '' is not a dict''))"
    by (cases v) (simp_all add: read_cell_metadata_cases)
next
  assume "content t \<noteq> [] \<and> json_loads E (strip (content t)) = Inr (PDict items)"
  then show "read_cell_metadata E t index = Inr items"
    by (simp add: read_cell_metadata_cases)
next
  assume h: "scan_tokens E lines cd rd sln s before = Inr s1 \<and> nesting_level s1 + nesting t = 0
      \<and> is_block_break t
      \<and> flush_markdown E lines sln (md_start_line s1) (Some t) (md_metadata s1) (nb s1)
          = Inr nb1"
  then have st: "scan_token E lines cd rd sln s1 t =
     (case read_cell_metadata E t (length (cells nb1)) of
        Inl err \<Rightarrow> Inl err
      | Inr meta \<Rightarrow>
          Inr \<lparr>nesting_level = 0, md_metadata = meta, md_start_line = snd (tok_map t),
               nb = nb1\<rparr>)"
    by (intro scan_token_break_read) simp_all
  show "case read_cell_metadata E t (length (cells nb1)) of
           Inl e \<Rightarrow> scan_tokens E lines cd rd sln s (before @ t # after) = Inl e
         | Inr meta \<Rightarrow>
             scan_tokens E lines cd rd sln s (before @ [t]) =
               Inr \<lparr>nesting_level = 0, md_metadata = meta, md_start_line = snd (tok_map t),
                    nb = nb1\<rparr>"
    using h st by (simp add: scan_tokens_append split: sum.splits)
next
  assume h: "scan_tokens E lines cd rd sln s before = Inr s1 \<and> nesting_level s1 + nesting t = 0
      \<and> is_block_break t
      \<and> flush_markdown E lines sln (md_start_line s1) (Some t) (md_metadata s1) (nb s1)
          = Inl e0"
  then have "scan_token E lines cd rd sln s1 t = Inl e0"
    by (intro scan_token_break_refused) simp_all
  with h show "scan_tokens E lines cd rd sln s (before @ t # after) = Inl e0"
    by (simp add: scan_tokens_append)
next
  assume h: "read_front_matter E (parse E (str @ [newline])) = Inr (before @ t # after, start, meta_nb)
        \<and> new_notebook E (from_dict meta_nb) = Inr nb0
        \<and> scan_tokens E (splitlines str) cd rd sln (initial_state start nb0) before = Inr s1
        \<and> nesting_level s1 + nesting t = 0 \<and> is_block_break t
        \<and> flush_markdown E (splitlines str) sln (md_start_line s1) (Some t) (md_metadata s1)
            (nb s1) = Inr nb1
        \<and> read_cell_metadata E t (length (cells nb1)) = Inl e1"
  then have "scan_token E (splitlines str) cd rd sln s1 t =
     (case read_cell_metadata E t (length (cells nb1)) of
        Inl err \<Rightarrow> Inl err
      | Inr meta \<Rightarrow>
          Inr \<lparr>nesting_level = 0, md_metadata = meta, md_start_line = snd (tok_map t),
               nb = nb1\<rparr>)"
    by (intro scan_token_break_read) simp_all
  with h have "scan_token E (splitlines str) cd rd sln s1 t = Inl e1" by simp
  with h show "myst_to_notebook E str cd rd sln = Inl e1"
    using scan_error_aborts by blast
next
  assume "nesting_level s1 + nesting t \<noteq> 0"
  then show "scan_token E lines cd rd sln s1 t
      = Inr (s1\<lparr>nesting_level := nesting_level s1 + nesting t\<rparr>)"
    by (rule scan_token_nested)
qed

lemma bad_break_front_matter:
  "read_front_matter demo_env (parse demo_env (bad_break_text @ [newline]))
     = Inr (intro_tokens @ bad_break # note_tokens, 0, PDict [])"
  by code_simp

lemma bad_break_notebook:
  "new_notebook demo_env (from_dict (PDict [])) = Inr empty_notebook"
  by code_simp

lemma bad_break_before:
  "scan_tokens demo_env (splitlines bad_break_text) CODE_DIRECTIVE RAW_DIRECTIVE False
     (initial_state 0 empty_notebook) intro_tokens
   = Inr (initial_state 0 empty_notebook)"
  by code_simp

lemma bad_break_level:
  "nesting_level (initial_state 0 empty_notebook) + nesting bad_break = 0"
  "is_block_break bad_break"
  by code_simp+

lemma bad_break_flush:
  "flush_markdown demo_env (splitlines bad_break_text) False
     (md_start_line (initial_state 0 empty_notebook)) (Some bad_break)
     (md_metadata (initial_state 0 empty_notebook)) (nb (initial_state 0 empty_notebook))
   = Inr intro_notebook"
  by code_simp

lemma bad_break_read:
  "read_cell_metadata demo_env bad_break (length (cells intro_notebook))
   = Inl (MystMetadataParsingError
       ''Markdown cell 1 at line 2 could not be read: Expecting property name enclosed in double quotes'')"
  by code_simp

lemma quoted_break_level:
  "nesting_level (initial_state 0 empty_notebook\<lparr>nesting_level := 1\<rparr>)
     + nesting (tok ''myst_block_break'' 0 [] json_bad (0, 1)) \<noteq> 0"
  by (simp add: tok_def)

lemma quoted_break_step:
  "initial_state 0 empty_notebook\<lparr>nesting_level := 1\<rparr>
     \<lparr>nesting_level := nesting_level (initial_state 0 empty_notebook\<lparr>nesting_level := 1\<rparr>)
        + nesting (tok ''myst_block_break'' 0 [] json_bad (0, 1))\<rparr>
   = initial_state 0 empty_notebook\<lparr>nesting_level := 1\<rparr>"
  by (simp add: tok_def)

lemma demo_break_facts:
  "content (tok ''myst_block_break'' 0 [] [] (1, 2)) = []"
  "content (tok ''myst_block_break'' 0 [] json_bad (1, 2)) \<noteq> []
   \<and> json_loads demo_env (strip (content (tok ''myst_block_break'' 0 [] json_bad (1, 2))))
       = Inl ''Expecting property name enclosed in double quotes''"
  "content (tok ''myst_block_break'' 0 [] ''[1]'' (1, 2)) \<noteq> []
   \<and> json_loads demo_env (strip (content (tok ''myst_block_break'' 0 [] ''[1]'' (1, 2))))
       = Inr (PList [PInt 1])
   \<and> (\<forall>items. PList [PInt 1] \<noteq> PDict items)"
  "content (tok ''myst_block_break'' 0 [] json_k1 (1, 2)) \<noteq> []
   \<and> json_loads demo_env (strip (content (tok ''myst_block_break'' 0 [] json_k1 (1, 2))))
       = Inr (PDict [(PStr ''k'', PInt 1)])"
  by (simp_all add: tok_def demo_env_def demo_json_def json_bad_def json_k1_def json_tags_def
      string_defs)

lemma demo_cell_messages:
  "cell_error_message ''Markdown'' 1 (fst (tok_map (tok ''myst_block_break'' 0 [] c (1, 2))) + 1)
     ('' could not be read: '' @ ''Expecting property name enclosed in double quotes'')
   = ''Markdown cell 1 at line 2 could not be read: Expecting property name enclosed in double quotes''"
  "cell_error_message ''Markdown'' 1 (fst (tok_map (tok ''myst_block_break'' 0 [] c (1, 2))) + 1)
     '' is not a dict''
   = ''Markdown cell 1 at line 2 is not a dict''"
  by (simp_all add: cell_error_message_def tok_def digit_def)

theorem block_break_metadata_witness:
  "read_cell_metadata demo_env (tok ''myst_block_break'' 0 [] [] (1, 2)) 1 = Inr []
   \<and> read_cell_metadata demo_env (tok ''myst_block_break'' 0 [] json_bad (1, 2)) 1
     = Inl (MystMetadataParsingError
         ''Markdown cell 1 at line 2 could not be read: Expecting property name enclosed in double quotes'')
   \<and> read_cell_metadata demo_env (tok ''myst_block_break'' 0 [] ''[1]'' (1, 2)) 1
     = Inl (MystMetadataParsingError ''Markdown cell 1 at line 2 is not a dict'')
   \<and> read_cell_metadata demo_env (tok ''myst_block_break'' 0 [] json_k1 (1, 2)) 1
     = Inr [(PStr ''k'', PInt 1)]
   \<and> myst_to_notebook demo_env bad_break_text CODE_DIRECTIVE RAW_DIRECTIVE False
     = Inl (MystMetadataParsingError
         ''Markdown cell 1 at line 2 could not be read: Expecting property name enclosed in double quotes'')
   \<and> scan_token demo_env (splitlines quoted_break_text) CODE_DIRECTIVE RAW_DIRECTIVE False
       (initial_state 0 empty_notebook\<lparr>nesting_level := 1\<rparr>)
       (tok ''myst_block_break'' 0 [] json_bad (0, 1))
     = Inr (initial_state 0 empty_notebook\<lparr>nesting_level := 1\<rparr>)"
proof -
  have a: "read_cell_metadata demo_env (tok ''myst_block_break'' 0 [] [] (1, 2)) 1 = Inr []"
    using block_break_metadata[where t = "tok ''myst_block_break'' 0 [] [] (1, 2)"
        and E = demo_env and index = 1]
      demo_break_facts(1) by blast
  have b: "read_cell_metadata demo_env (tok ''myst_block_break'' 0 [] json_bad (1, 2)) 1
     = Inl (MystMetadataParsingError
         ''Markdown cell 1 at line 2 could not be read: Expecting property name enclosed in double quotes'')"
    using block_break_metadata[where t = "tok ''myst_block_break'' 0 [] json_bad (1, 2)"
        and E = demo_env and index = 1
        and err = "''Expecting property name enclosed in double quotes''"]
      demo_break_facts(2) demo_cell_messages(1)[of json_bad] by simp
  have c: "read_cell_metadata demo_env (tok ''myst_block_break'' 0 [] ''[1]'' (1, 2)) 1
     = Inl (MystMetadataParsingError ''Markdown cell 1 at line 2 is not a dict'')"
    using block_break_metadata[where t = "tok ''myst_block_break'' 0 [] ''[1]'' (1, 2)"
        and E = demo_env and index = 1 and v = "PList [PInt 1]"]
      demo_break_facts(3) demo_cell_messages(2)[of "''[1]''"] by simp
  have d: "read_cell_metadata demo_env (tok ''myst_block_break'' 0 [] json_k1 (1, 2)) 1
     = Inr [(PStr ''k'', PInt 1)]"
    using block_break_metadata[where t = "tok ''myst_block_break'' 0 [] json_k1 (1, 2)"
        and E = demo_env and index = 1 and items = "[(PStr ''k'', PInt 1)]"]
      demo_break_facts(4) by blast
  have e: "myst_to_notebook demo_env bad_break_text CODE_DIRECTIVE RAW_DIRECTIVE False
     = Inl (MystMetadataParsingError
         ''Markdown cell 1 at line 2 could not be read: Expecting property name enclosed in double quotes'')"
    using block_break_metadata[where t = bad_break
        and E = demo_env and str = bad_break_text
        and cd = CODE_DIRECTIVE and rd = RAW_DIRECTIVE and sln = False
        and before = intro_tokens and after = note_tokens
        and start = 0 and meta_nb = "PDict []" and ?nb0.0 = empty_notebook
        and ?s1.0 = "initial_state 0 empty_notebook" and ?nb1.0 = intro_notebook
        and ?e1.0 = "MystMetadataParsingError
         ''Markdown cell 1 at line 2 could not be read: Expecting property name enclosed in double quotes''"]
      bad_break_front_matter bad_break_notebook bad_break_before bad_break_level
      bad_break_flush bad_break_read
    by blast
  have "scan_token demo_env (splitlines quoted_break_text) CODE_DIRECTIVE RAW_DIRECTIVE False
       (initial_state 0 empty_notebook\<lparr>nesting_level := 1\<rparr>)
       (tok ''myst_block_break'' 0 [] json_bad (0, 1))
     = Inr (initial_state 0 empty_notebook\<lparr>nesting_level := 1\<rparr>
        \<lparr>nesting_level := nesting_level (initial_state 0 empty_notebook\<lparr>nesting_level := 1\<rparr>)
           + nesting (tok ''myst_block_break'' 0 [] json_bad (0, 1))\<rparr>)"
    using block_break_metadata[where t = "tok ''myst_block_break'' 0 [] json_bad (0, 1)"
        and E = demo_env and lines = "splitlines quoted_break_text"
        and cd = CODE_DIRECTIVE and rd = RAW_DIRECTIVE and sln = False
        and ?s1.0 = "initial_state 0 empty_notebook\<lparr>nesting_level := 1\<rparr>"]
      quoted_break_level
    by blast
  then have f: "scan_token demo_env (splitlines quoted_break_text) CODE_DIRECTIVE RAW_DIRECTIVE
       False (initial_state 0 empty_notebook\<lparr>nesting_level := 1\<rparr>)
       (tok ''myst_block_break'' 0 [] json_bad (0, 1))
     = Inr (initial_state 0 empty_notebook\<lparr>nesting_level := 1\<rparr>)"
    by (simp only: quoted_break_step)
  from a b c d e f show ?thesis by blast
qed

section \<open>What the metadata errors carry\<close>

lemma contains_str_prefix: "contains_str needle (needle @ ys)"
proof (cases "needle @ ys")
  case Nil
  then show ?thesis by simp
next
  case (Cons a list)
  have "startswith (needle @ ys) needle" by (simp add: startswith_def)
  with Cons show ?thesis by simp
qed

lemma contains_str_infix: "contains_str needle (xs @ needle @ ys)"
  by (induction xs) (simp_all add: contains_str_prefix)

lemma cell_error_message_contains:
  "contains_str '' cell '' (cell_error_message kind index line detail)"
  "contains_str '' at line '' (cell_error_message kind index line detail)"
proof -
  show "contains_str '' cell '' (cell_error_message kind index line detail)"
    unfolding cell_error_message_def by (rule contains_str_infix)
  have "cell_error_message kind index line detail
      = (kind @ '' cell '' @ str_nat index) @ '' at line '' @ (str_nat line @ detail)"
    by (simp add: cell_error_message_def)
  then show "contains_str '' at line '' (cell_error_message kind index line detail)"
    using contains_str_infix by metis
qed

lemma read_fenced_cell_cases:
  "read_fenced_cell E t index kind =
     (case parse_directive_text E (content t) of
        Inl err \<Rightarrow>
          Inl (MystMetadataParsingError
                (cell_error_message kind index (fst (tok_map t) + 1)
                   ('' could not be read: '' @ err)))
      | Inr parsed \<Rightarrow> Inr parsed)"
  by (simp add: read_fenced_cell_def cell_error_message_def split: sum.splits)

lemma flush_markdown_error:
  "flush_markdown E lines sln start token m nbk = Inl err \<Longrightarrow>
   \<exists>reason. err = NotebookValidationError reason"
  by (auto simp: flush_markdown_eq with_markdown_cell_def split: if_splits option.splits)

lemma new_cell_error:
  "new_cell E kind drawn src meta = Inl err \<Longrightarrow> \<exists>reason. err = NotebookValidationError reason"
  by (auto simp: new_cell_def split: option.splits)

lemma new_notebook_error:
  "new_notebook E meta = Inl err \<Longrightarrow> \<exists>reason. err = NotebookValidationError reason"
  by (auto simp: new_notebook_def split: option.splits)

lemma scan_token_error:
  assumes "scan_token E lines cd rd sln s t = Inl (MystMetadataParsingError msg)"
  shows "nesting_level s + nesting t = 0 \<and>
     (\<exists>nb1. flush_markdown E lines sln (md_start_line s) (Some t) (md_metadata s) (nb s) = Inr nb1
        \<and> token_error E cd rd t (length (cells nb1)) msg)"
proof -
  have lvl: "nesting_level s + nesting t = 0"
  proof (rule ccontr)
    assume "nesting_level s + nesting t \<noteq> 0"
    from scan_token_nested[OF this] assms show False by simp
  qed
  have cls: "is_cell_fence cd rd t \<or> is_block_break t"
  proof (rule ccontr)
    assume "\<not> (is_cell_fence cd rd t \<or> is_block_break t)"
    then have "\<not> is_cell_fence cd rd t" and "\<not> is_block_break t" by simp_all
    from scan_token_other[OF this] assms show False by simp
  qed
  obtain nb1 where
    fl: "flush_markdown E lines sln (md_start_line s) (Some t) (md_metadata s) (nb s) = Inr nb1"
  proof (cases "flush_markdown E lines sln (md_start_line s) (Some t) (md_metadata s) (nb s)")
    case (Inl e)
    have "scan_token E lines cd rd sln s t = Inl e"
    proof (cases "is_cell_fence cd rd t")
      case True
      show ?thesis unfolding scan_token_cell_fence[OF lvl True] Inl by simp
    next
      case False
      with cls have "is_block_break t" by simp
      from scan_token_block_break[OF lvl this] Inl show ?thesis by simp
    qed
    with assms have "e = MystMetadataParsingError msg" by simp
    with flush_markdown_error[OF Inl] show ?thesis by simp
  next
    case (Inr nb1)
    then show ?thesis by (rule that)
  qed
  let ?n = "length (cells nb1)"
  have "token_error E cd rd t ?n msg"
  proof (cases "is_cell_fence cd rd t")
    case True
    let ?kind = "if startswith (info t) cd then ''Code'' else ''Raw''"
    have "read_fenced_cell E t ?n ?kind = Inl (MystMetadataParsingError msg)"
    proof (cases "read_fenced_cell E t ?n ?kind")
      case (Inl e)
      have "scan_token E lines cd rd sln s t = Inl e"
        unfolding scan_token_cell_fence[OF lvl True] fl using Inl by simp
      with assms Inl show ?thesis by simp
    next
      case (Inr parsed)
      obtain options body_lines where p: "parsed = (options, body_lines)"
        by (cases parsed) auto
      let ?c = "new_cell E (if startswith (info t) cd then Code else Raw) ?n
          (join [newline] body_lines) (fence_meta sln t options)"
      have eq: "scan_token E lines cd rd sln s t =
          (case ?c of
             Inl err \<Rightarrow> Inl err
           | Inr c \<Rightarrow>
               Inr \<lparr>nesting_level = 0, md_metadata = [], md_start_line = snd (tok_map t),
                    nb = nb1\<lparr>cells := cells nb1 @ [c]\<rparr>\<rparr>)"
        unfolding scan_token_cell_fence[OF lvl True] fl using Inr p by simp
      show ?thesis
      proof (cases ?c)
        case (Inl e)
        with eq assms have "e = MystMetadataParsingError msg" by simp
        with new_cell_error[OF Inl] show ?thesis by simp
      next
        case (Inr c)
        with eq assms show ?thesis by simp
      qed
    qed
    then have "case parse_directive_text E (content t) of
        Inl e \<Rightarrow> msg = cell_error_message ?kind ?n (fst (tok_map t) + 1)
                   ('' could not be read: '' @ e)
      | Inr parsed \<Rightarrow> False"
      by (auto simp: read_fenced_cell_cases split: sum.splits)
    then show ?thesis
      using True by (cases "parse_directive_text E (content t)") (simp_all add: token_error_def)
  next
    case False
    with cls have brk: "is_block_break t" by simp
    have rd: "read_cell_metadata E t ?n = Inl (MystMetadataParsingError msg)"
    proof (cases "read_cell_metadata E t ?n")
      case (Inl e)
      with scan_token_break_read[OF lvl brk fl, of cd rd] assms show ?thesis by simp
    next
      case (Inr meta)
      with scan_token_break_read[OF lvl brk fl, of cd rd] assms show ?thesis by simp
    qed
    show ?thesis
    proof (cases "content t = []")
      case True
      with rd show ?thesis by (simp add: read_cell_metadata_cases)
    next
      case ne: False
      show ?thesis
      proof (cases "json_loads E (strip (content t))")
        case (Inl e)
        with rd ne False brk show ?thesis
          by (simp add: read_cell_metadata_cases token_error_def)
      next
        case (Inr v)
        with rd ne False brk show ?thesis
          by (cases v) (simp_all add: read_cell_metadata_cases token_error_def)
      qed
    qed
  qed
  with lvl fl show ?thesis by blast
qed

lemma read_front_matter_error:
  assumes "read_front_matter E tokens = Inl (MystMetadataParsingError msg)"
  shows "\<exists>first rest e. tokens = first # rest \<and> type first = ''front_matter''
      \<and> (yaml_safe_load E (content first) = Inl (ParserError e)
         \<or> yaml_safe_load E (content first) = Inl (ScannerError e))
      \<and> msg = ''Notebook metadata: '' @ e"
  using assms
  by (auto simp: read_front_matter_def split: list.splits if_splits sum.splits yaml_error.splits)

text \<open>
  Claim C7, as stated: every \<open>MetadataParsingError\<close> of the conversion carries a cell
  type, a cell index and a line, the one for malformed front-matter YAML included. It does
  not hold: that error carries the text \<open>Notebook metadata:\<close> and the parser's message
  only, whereas each message that names a cell holds \<open>" cell "\<close> and \<open>" at line "\<close>
  (lemma \<open>cell_error_message_contains\<close>).
\<close>

theorem front_matter_error_counterexample:
  "myst_to_notebook demo_env malformed_text CODE_DIRECTIVE RAW_DIRECTIVE False
     = Inl (MystMetadataParsingError ''Notebook metadata: while parsing a flow node'')
   \<and> \<not> contains_str '' cell '' ''Notebook metadata: while parsing a flow node''
   \<and> \<not> contains_str '' at line '' ''Notebook metadata: while parsing a flow node''"
  by code_simp

text \<open>
  Claim C7, amended. A \<open>MetadataParsingError\<close> of the conversion is one of two kinds. It
  is raised for the front matter, when the YAML parser fails with a parser or a scanner
  error: then it carries \<open>Notebook metadata:\<close> and the parser's message, and no cell or
  line. Or it is raised by a token at nesting level 0, after the tokens before it were
  scanned and the pending Markdown was flushed: then it carries the cell's type (Code, Raw
  or Markdown), the number of cells produced so far, the flush before the token included,
  and the token's first line plus one, followed by the parser's message for unreadable fence
  options or JSON, and by the words \<open>is not a dict\<close>, without a parser's message, for a
  JSON value that is not an object.
\<close>

theorem metadata_errors_name_cell:
  assumes "myst_to_notebook E str cd rd sln = Inl (MystMetadataParsingError msg)"
  shows "(\<exists>first rest e. parse E (str @ [newline]) = first # rest
            \<and> type first = ''front_matter''
            \<and> (yaml_safe_load E (content first) = Inl (ParserError e)
               \<or> yaml_safe_load E (content first) = Inl (ScannerError e))
            \<and> msg = ''Notebook metadata: '' @ e)
       \<or> (\<exists>tokens start meta nb0 before t after s1 nb1.
            read_front_matter E (parse E (str @ [newline])) = Inr (tokens, start, meta)
            \<and> new_notebook E (from_dict meta) = Inr nb0
            \<and> tokens = before @ t # after
            \<and> scan_tokens E (splitlines str) cd rd sln (initial_state start nb0) before = Inr s1
            \<and> nesting_level s1 + nesting t = 0
            \<and> flush_markdown E (splitlines str) sln (md_start_line s1) (Some t)
                 (md_metadata s1) (nb s1) = Inr nb1
            \<and> token_error E cd rd t (length (cells nb1)) msg)"
proof (cases "read_front_matter E (parse E (str @ [newline]))")
  case (Inl err)
  with assms have "err = MystMetadataParsingError msg"
    by (simp add: myst_to_notebook_def convert_tokens_def)
  with Inl read_front_matter_error show ?thesis by blast
next
  case (Inr parts)
  obtain tokens start meta where parts: "parts = (tokens, start, meta)"
    by (cases parts) auto
  obtain nb0 where nb0: "new_notebook E (from_dict meta) = Inr nb0"
  proof (cases "new_notebook E (from_dict meta)")
    case (Inl e)
    with assms Inr parts have "e = MystMetadataParsingError msg"
      by (simp add: myst_to_notebook_def convert_tokens_def)
    with new_notebook_error[OF Inl] show ?thesis by simp
  next
    case (Inr nb0)
    then show ?thesis by (rule that)
  qed
  have "scan_tokens E (splitlines str) cd rd sln (initial_state start nb0) tokens
      = Inl (MystMetadataParsingError msg)"
  proof (cases "scan_tokens E (splitlines str) cd rd sln (initial_state start nb0) tokens")
    case (Inl e)
    with assms Inr parts nb0 show ?thesis
      by (simp add: myst_to_notebook_def convert_tokens_def)
  next
    case sc: (Inr s)
    with assms Inr parts nb0 have
      "flush_markdown E (splitlines str) sln (md_start_line s) None (md_metadata s) (nb s)
         = Inl (MystMetadataParsingError msg)"
      by (simp add: myst_to_notebook_def convert_tokens_def)
    from flush_markdown_error[OF this] show ?thesis by simp
  qed
  from scan_tokens_error_split[OF this] obtain before t after s1 where
    tk: "tokens = before @ t # after"
    and sc: "scan_tokens E (splitlines str) cd rd sln (initial_state start nb0) before = Inr s1"
    and st: "scan_token E (splitlines str) cd rd sln s1 t = Inl (MystMetadataParsingError msg)"
    by blast
  from scan_token_error[OF st] obtain nb1 where
    "nesting_level s1 + nesting t = 0" and
    "flush_markdown E (splitlines str) sln (md_start_line s1) (Some t) (md_metadata s1) (nb s1)
       = Inr nb1" and
    "token_error E cd rd t (length (cells nb1)) msg"
    by auto
  with Inr parts nb0 tk sc show ?thesis by blast
qed

lemma bad_break_raises:
  "myst_to_notebook demo_env bad_break_text CODE_DIRECTIVE RAW_DIRECTIVE False
     = Inl (MystMetadataParsingError
         ''Markdown cell 1 at line 2 could not be read: Expecting property name enclosed in double quotes'')"
  by code_simp

theorem metadata_errors_name_cell_witness:
  "myst_to_notebook demo_env bad_break_text CODE_DIRECTIVE RAW_DIRECTIVE False
     = Inl (MystMetadataParsingError
         ''Markdown cell 1 at line 2 could not be read: Expecting property name enclosed in double quotes'')
   \<and> ((\<exists>first rest e. parse demo_env (bad_break_text @ [newline]) = first # rest
            \<and> type first = ''front_matter''
            \<and> (yaml_safe_load demo_env (content first) = Inl (ParserError e)
               \<or> yaml_safe_load demo_env (content first) = Inl (ScannerError e))
            \<and> ''Markdown cell 1 at line 2 could not be read: Expecting property name enclosed in double quotes''
                = ''Notebook metadata: '' @ e)
       \<or> (\<exists>tokens start meta nb0 before t after s1 nb1.
            read_front_matter demo_env (parse demo_env (bad_break_text @ [newline]))
              = Inr (tokens, start, meta)
            \<and> new_notebook demo_env (from_dict meta) = Inr nb0
            \<and> tokens = before @ t # after
            \<and> scan_tokens demo_env (splitlines bad_break_text) CODE_DIRECTIVE RAW_DIRECTIVE False
                 (initial_state start nb0) before = Inr s1
            \<and> nesting_level s1 + nesting t = 0
            \<and> flush_markdown demo_env (splitlines bad_break_text) False (md_start_line s1)
                 (Some t) (md_metadata s1) (nb s1) = Inr nb1
            \<and> token_error demo_env CODE_DIRECTIVE RAW_DIRECTIVE t (length (cells nb1))
                 ''Markdown cell 1 at line 2 could not be read: Expecting property name enclosed in double quotes''))"
  using bad_break_raises metadata_errors_name_cell[OF bad_break_raises] by (rule conjI)

section \<open>The pending metadata\<close>

lemma tracked_meta_carries:
  assumes "carries_metadata \<lparr>cell_id = i, cell_type = Markdown, source = src,
      metadata = tracked_meta sln a b m\<rparr>"
  shows "m \<noteq> []"
  using assms
  by (auto simp: carries_metadata_def own_metadata_def tracked_meta_def delete_update_same
      split: if_splits)

lemma flush_markdown_carries:
  assumes "flush_markdown E lines sln start token m nbk = Inr nb1"
  shows "length (filter carries_metadata (cells nb1))
     \<le> length (filter carries_metadata (cells nbk)) + (if m = [] then 0 else 1)"
proof -
  let ?src = "strip_blank_lines (join [newline] (slice lines start (endline_of lines token)))"
  let ?c = "\<lparr>cell_id = random_cell_id E (length (cells nbk)), cell_type = Markdown,
      source = ?src, metadata = tracked_meta sln start (endline_of lines token) m\<rparr>"
  from assms have "with_markdown_cell E nbk ?src
      (tracked_meta sln start (endline_of lines token) m) = Inr nb1"
    by (simp add: flush_markdown_eq)
  from with_markdown_cell_Inr(2)[OF this]
  have cs: "cells nb1 = (if ?src = [] then cells nbk else cells nbk @ [?c])" .
  show ?thesis
  proof (cases "?src \<noteq> [] \<and> carries_metadata ?c")
    case True
    then have "m \<noteq> []" using tracked_meta_carries by blast
    with cs show ?thesis by simp
  next
    case False
    with cs show ?thesis by auto
  qed
qed

lemma read_cell_metadata_nonempty:
  "read_cell_metadata E t index = Inr meta \<Longrightarrow> meta \<noteq> [] \<Longrightarrow> content t \<noteq> []"
  by (auto simp: read_cell_metadata_cases split: if_splits)

lemma scan_token_pending_step:
  assumes "scan_token E lines cd rd sln s t = Inr s'"
  shows "(nesting_level s + nesting t = 0 \<and> is_cell_fence cd rd t \<longrightarrow>
            (\<exists>nb1 c. flush_markdown E lines sln (md_start_line s) (Some t) (md_metadata s) (nb s)
                        = Inr nb1
               \<and> \<not> is_markdown c \<and> nb s' = nb1\<lparr>cells := cells nb1 @ [c]\<rparr>
               \<and> md_metadata s' = []))
       \<and> (nesting_level s + nesting t = 0 \<and> is_block_break t \<longrightarrow>
            (\<exists>nb1. flush_markdown E lines sln (md_start_line s) (Some t) (md_metadata s) (nb s)
                      = Inr nb1
               \<and> nb s' = nb1
               \<and> read_cell_metadata E t (length (cells nb1)) = Inr (md_metadata s')))
       \<and> (nesting_level s + nesting t \<noteq> 0 \<or> (\<not> is_cell_fence cd rd t \<and> \<not> is_block_break t) \<longrightarrow>
            md_metadata s' = md_metadata s \<and> md_start_line s' = md_start_line s \<and> nb s' = nb s)"
proof (intro conjI impI)
  assume h: "nesting_level s + nesting t = 0 \<and> is_cell_fence cd rd t"
  then have lvl: "nesting_level s + nesting t = 0" and f: "is_cell_fence cd rd t" by simp_all
  from scan_token_cell_fence[OF lvl f, of E lines sln] assms
  obtain nb1 c kind src meta where
    fl: "flush_markdown E lines sln (md_start_line s) (Some t) (md_metadata s) (nb s) = Inr nb1"
    and c: "new_cell E kind (length (cells nb1)) src meta = Inr c"
    and kind: "kind = (if startswith (info t) cd then Code else Raw)"
    and s': "nb s' = nb1\<lparr>cells := cells nb1 @ [c]\<rparr>" "md_metadata s' = []"
    by (auto split: sum.splits prod.splits)
  from new_cell_Inr[OF c] kind have "\<not> is_markdown c"
    by (auto simp: is_markdown_def)
  with fl s' show "\<exists>nb1 c. flush_markdown E lines sln (md_start_line s) (Some t) (md_metadata s)
      (nb s) = Inr nb1
      \<and> \<not> is_markdown c \<and> nb s' = nb1\<lparr>cells := cells nb1 @ [c]\<rparr> \<and> md_metadata s' = []"
    by blast
next
  assume h: "nesting_level s + nesting t = 0 \<and> is_block_break t"
  then have lvl: "nesting_level s + nesting t = 0" and b: "is_block_break t" by simp_all
  from scan_token_block_break[OF lvl b, of E lines cd rd sln] assms
  show "\<exists>nb1. flush_markdown E lines sln (md_start_line s) (Some t) (md_metadata s) (nb s)
      = Inr nb1
      \<and> nb s' = nb1 \<and> read_cell_metadata E t (length (cells nb1)) = Inr (md_metadata s')"
    by (auto split: sum.splits)
next
  assume h: "nesting_level s + nesting t \<noteq> 0 \<or> (\<not> is_cell_fence cd rd t \<and> \<not> is_block_break t)"
  have "scan_token E lines cd rd sln s t = Inr (s\<lparr>nesting_level := nesting_level s + nesting t\<rparr>)"
    using h scan_token_nested scan_token_other by blast
  with assms have s': "s' = s\<lparr>nesting_level := nesting_level s + nesting t\<rparr>" by simp
  show "md_metadata s' = md_metadata s" and "md_start_line s' = md_start_line s"
    and "nb s' = nb s"
    unfolding s' by simp_all
qed

lemma scan_token_pending:
  assumes "scan_token E lines cd rd sln s t = Inr s'"
  shows "length (filter carries_metadata (cells (nb s'))) + (if md_metadata s' = [] then 0 else 1)
     \<le> length (filter carries_metadata (cells (nb s))) + (if md_metadata s = [] then 0 else 1)
       + length (filter break_with_content (top_level_tokens (nesting_level s) [t]))"
proof (cases "nesting_level s + nesting t = 0")
  case False
  from scan_token_nested[OF this, of E lines cd rd sln] assms
  have "s' = s\<lparr>nesting_level := nesting_level s + nesting t\<rparr>" by simp
  then show ?thesis by simp
next
  case lvl: True
  show ?thesis
  proof (cases "is_cell_fence cd rd t")
    case True
    from scan_token_pending_step[OF assms] lvl True obtain nb1 c where
      fl: "flush_markdown E lines sln (md_start_line s) (Some t) (md_metadata s) (nb s) = Inr nb1"
      and c: "\<not> is_markdown c" and nb: "nb s' = nb1\<lparr>cells := cells nb1 @ [c]\<rparr>"
      and m: "md_metadata s' = []"
      by blast
    from flush_markdown_carries[OF fl] c nb m show ?thesis
      by (simp add: carries_metadata_def)
  next
    case False
    show ?thesis
    proof (cases "is_block_break t")
      case True
      from scan_token_pending_step[OF assms] lvl True obtain nb1 where
        fl: "flush_markdown E lines sln (md_start_line s) (Some t) (md_metadata s) (nb s)
              = Inr nb1"
        and nb: "nb s' = nb1"
        and rd: "read_cell_metadata E t (length (cells nb1)) = Inr (md_metadata s')"
        by blast
      have "(if md_metadata s' = [] then 0 else 1)
          \<le> length (filter break_with_content (top_level_tokens (nesting_level s) [t]))"
        using read_cell_metadata_nonempty[OF rd] lvl True
        by (auto simp: break_with_content_def)
      with flush_markdown_carries[OF fl] nb show ?thesis by simp
    next
      case other: False
      from scan_token_other[OF False other, of E lines sln s] assms
      have "s' = s\<lparr>nesting_level := nesting_level s + nesting t\<rparr>" by simp
      then show ?thesis by simp
    qed
  qed
qed

lemma scan_tokens_pending:
  "scan_tokens E lines cd rd sln s tokens = Inr s' \<Longrightarrow>
   length (filter carries_metadata (cells (nb s'))) + (if md_metadata s' = [] then 0 else 1)
     \<le> length (filter carries_metadata (cells (nb s))) + (if md_metadata s = [] then 0 else 1)
       + length (filter break_with_content (top_level_tokens (nesting_level s) tokens))"
proof (induction tokens arbitrary: s)
  case Nil
  then show ?case by simp
next
  case (Cons t ts)
  from Cons.prems obtain s1 where
    st: "scan_token E lines cd rd sln s t = Inr s1"
    and rest: "scan_tokens E lines cd rd sln s1 ts = Inr s'"
    by (auto split: sum.splits)
  have lvl: "nesting_level s1 = nesting_level s + nesting t"
    using st by (rule scan_token_level)
  have split: "length (filter break_with_content (top_level_tokens (nesting_level s) (t # ts)))
      = length (filter break_with_content (top_level_tokens (nesting_level s) [t]))
        + length (filter break_with_content (top_level_tokens (nesting_level s1) ts))"
    unfolding lvl top_level_tokens_Cons[of "nesting_level s" t ts] by simp
  from scan_token_pending[OF st] Cons.IH[OF rest] show ?case
    unfolding split by linarith
qed

lemma convert_tokens_pending:
  assumes "convert_tokens E lines tokens cd rd sln = Inr nbk"
  shows "length (filter carries_metadata (cells nbk))
     \<le> length (filter break_with_content (top_level_tokens 0 (scanned_tokens tokens)))"
proof -
  from assms obtain toks start meta nb0 s where
    fm: "read_front_matter E tokens = Inr (toks, start, meta)"
    and nb0: "new_notebook E (from_dict meta) = Inr nb0"
    and sc: "scan_tokens E lines cd rd sln (initial_state start nb0) toks = Inr s"
    and fl: "flush_markdown E lines sln (md_start_line s) None (md_metadata s) (nb s) = Inr nbk"
    by (rule convert_tokens_Inr)
  have toks: "toks = scanned_tokens tokens"
    using fm by (rule read_front_matter_tokens)
  from scan_tokens_pending[OF sc] new_notebook_Inr[OF nb0] have
    "length (filter carries_metadata (cells (nb s))) + (if md_metadata s = [] then 0 else 1)
       \<le> length (filter break_with_content (top_level_tokens 0 toks))"
    by (simp add: initial_state_def)
  with flush_markdown_carries[OF fl] show ?thesis unfolding toks by linarith
qed

lemma break_then_run:
  assumes "nesting_level s + nesting b = 0" and "is_block_break b"
    and "flush_markdown E lines sln (md_start_line s) (Some b) (md_metadata s) (nb s) = Inr nb1"
    and "read_cell_metadata E b (length (cells nb1)) = Inr m"
    and "plain_run cd rd 0 run"
  shows "scan_tokens E lines cd rd sln s (b # run)
     = Inr \<lparr>nesting_level = sum_list (map nesting run), md_metadata = m,
            md_start_line = snd (tok_map b), nb = nb1\<rparr>"
proof -
  let ?s1 = "\<lparr>nesting_level = 0, md_metadata = m, md_start_line = snd (tok_map b), nb = nb1\<rparr>"
  have st: "scan_token E lines cd rd sln s b = Inr ?s1"
    unfolding scan_token_break_read[OF assms(1-3)] assms(4) by simp
  have "plain_run cd rd (nesting_level ?s1) run" using assms(5) by simp
  from scan_tokens_plain_run[OF this, of E lines sln] show ?thesis
    by (simp add: st)
qed

lemma break_run_fence:
  assumes "nesting_level s + nesting b = 0" and "is_block_break b"
    and "flush_markdown E lines sln (md_start_line s) (Some b) (md_metadata s) (nb s) = Inr nb1"
    and "read_cell_metadata E b (length (cells nb1)) = Inr m"
    and "plain_run cd rd 0 run"
    and "sum_list (map nesting run) + nesting c = 0"
    and "is_cell_fence cd rd c"
  shows "scan_tokens E lines cd rd sln s (b # run @ [c]) =
     (case with_markdown_cell E nb1
             (strip_blank_lines (join [newline]
                (slice lines (snd (tok_map b)) (fst (tok_map c)))))
             (tracked_meta sln (snd (tok_map b)) (fst (tok_map c)) m) of
        Inl err \<Rightarrow> Inl err
      | Inr nb2 \<Rightarrow>
     (case read_fenced_cell E c (length (cells nb2))
             (if startswith (info c) cd then ''Code'' else ''Raw'') of
        Inl err \<Rightarrow> Inl err
      | Inr (options, body_lines) \<Rightarrow>
     (case new_cell E (if startswith (info c) cd then Code else Raw) (length (cells nb2))
             (join [newline] body_lines) (fence_meta sln c options) of
        Inl err \<Rightarrow> Inl err
      | Inr fenced \<Rightarrow>
          Inr \<lparr>nesting_level = 0, md_metadata = [], md_start_line = snd (tok_map c),
               nb = nb2\<lparr>cells := cells nb2 @ [fenced]\<rparr>\<rparr>)))"
proof -
  let ?s2 = "\<lparr>nesting_level = sum_list (map nesting run), md_metadata = m,
      md_start_line = snd (tok_map b), nb = nb1\<rparr>"
  have "scan_tokens E lines cd rd sln s ((b # run) @ [c]) = scan_token E lines cd rd sln ?s2 c"
    unfolding scan_tokens_append break_then_run[OF assms(1-5)] by (simp split: sum.splits)
  moreover have "nesting_level ?s2 + nesting c = 0" using assms(6) by simp
  from scan_token_cell_fence[OF this assms(7), of E lines sln]
  have "scan_token E lines cd rd sln ?s2 c =
     (case with_markdown_cell E nb1
             (strip_blank_lines (join [newline]
                (slice lines (snd (tok_map b)) (fst (tok_map c)))))
             (tracked_meta sln (snd (tok_map b)) (fst (tok_map c)) m) of
        Inl err \<Rightarrow> Inl err
      | Inr nb2 \<Rightarrow>
     (case read_fenced_cell E c (length (cells nb2))
             (if startswith (info c) cd then ''Code'' else ''Raw'') of
        Inl err \<Rightarrow> Inl err
      | Inr (options, body_lines) \<Rightarrow>
     (case new_cell E (if startswith (info c) cd then Code else Raw) (length (cells nb2))
             (join [newline] body_lines) (fence_meta sln c options) of
        Inl err \<Rightarrow> Inl err
      | Inr fenced \<Rightarrow>
          Inr \<lparr>nesting_level = 0, md_metadata = [], md_start_line = snd (tok_map c),
               nb = nb2\<lparr>cells := cells nb2 @ [fenced]\<rparr>\<rparr>)))"
    by (simp add: flush_markdown_eq endline_of_def)
  ultimately show ?thesis by simp
qed

lemma break_run_break:
  assumes "nesting_level s + nesting b = 0" and "is_block_break b"
    and "flush_markdown E lines sln (md_start_line s) (Some b) (md_metadata s) (nb s) = Inr nb1"
    and "read_cell_metadata E b (length (cells nb1)) = Inr m"
    and "plain_run cd rd 0 run"
    and "sum_list (map nesting run) + nesting c = 0"
    and "is_block_break c"
  shows "scan_tokens E lines cd rd sln s (b # run @ [c]) =
     (case with_markdown_cell E nb1
             (strip_blank_lines (join [newline]
                (slice lines (snd (tok_map b)) (fst (tok_map c)))))
             (tracked_meta sln (snd (tok_map b)) (fst (tok_map c)) m) of
        Inl err \<Rightarrow> Inl err
      | Inr nb2 \<Rightarrow>
     (case read_cell_metadata E c (length (cells nb2)) of
        Inl err \<Rightarrow> Inl err
      | Inr own \<Rightarrow>
          Inr \<lparr>nesting_level = 0, md_metadata = own, md_start_line = snd (tok_map c),
               nb = nb2\<rparr>))"
proof -
  let ?s2 = "\<lparr>nesting_level = sum_list (map nesting run), md_metadata = m,
      md_start_line = snd (tok_map b), nb = nb1\<rparr>"
  have "scan_tokens E lines cd rd sln s ((b # run) @ [c]) = scan_token E lines cd rd sln ?s2 c"
    unfolding scan_tokens_append break_then_run[OF assms(1-5)] by (simp split: sum.splits)
  moreover have "nesting_level ?s2 + nesting c = 0" using assms(6) by simp
  from scan_token_block_break[OF this assms(7), of E lines cd rd sln]
  have "scan_token E lines cd rd sln ?s2 c =
     (case with_markdown_cell E nb1
             (strip_blank_lines (join [newline]
                (slice lines (snd (tok_map b)) (fst (tok_map c)))))
             (tracked_meta sln (snd (tok_map b)) (fst (tok_map c)) m) of
        Inl err \<Rightarrow> Inl err
      | Inr nb2 \<Rightarrow>
     (case read_cell_metadata E c (length (cells nb2)) of
        Inl err \<Rightarrow> Inl err
      | Inr own \<Rightarrow>
          Inr \<lparr>nesting_level = 0, md_metadata = own, md_start_line = snd (tok_map c),
               nb = nb2\<rparr>))"
    by (simp add: flush_markdown_eq endline_of_def)
  ultimately show ?thesis by simp
qed

lemma break_run_end:
  assumes "read_front_matter E (parse E (str @ [newline])) = Inr (before @ b # run, start, meta)"
    and "new_notebook E (from_dict meta) = Inr nb0"
    and "scan_tokens E (splitlines str) cd rd sln (initial_state start nb0) before = Inr s"
    and "nesting_level s + nesting b = 0" and "is_block_break b"
    and "flush_markdown E (splitlines str) sln (md_start_line s) (Some b) (md_metadata s) (nb s)
           = Inr nb1"
    and "read_cell_metadata E b (length (cells nb1)) = Inr m"
    and "plain_run cd rd 0 run"
  shows "myst_to_notebook E str cd rd sln =
     with_markdown_cell E nb1
       (strip_blank_lines (join [newline]
          (slice (splitlines str) (snd (tok_map b)) (length (splitlines str)))))
       (tracked_meta sln (snd (tok_map b)) (length (splitlines str)) m)"
proof -
  let ?s1 = "\<lparr>nesting_level = 0, md_metadata = m, md_start_line = snd (tok_map b), nb = nb1\<rparr>"
  have st: "scan_token E (splitlines str) cd rd sln s b = Inr ?s1"
    unfolding scan_token_break_read[OF assms(4-6)] assms(7) by simp
  have fm: "read_front_matter E (parse E (str @ [newline]))
      = Inr ((before @ [b]) @ run, start, meta)"
    using assms(1) by simp
  have sc: "scan_tokens E (splitlines str) cd rd sln (initial_state start nb0) (before @ [b])
      = Inr ?s1"
    by (simp add: scan_tokens_append assms(3) st)
  have run: "plain_run cd rd (nesting_level ?s1) run" using assms(8) by simp
  from convert_tail[OF fm assms(2) sc run] show ?thesis
    by (simp add: flush_markdown_eq endline_of_def)
qed

text \<open>
  Claim C4. There is one pending metadata map. A token that the scan does not classify, at
  a non-zero nesting level or of another kind, leaves it, the start line and the cells as
  they are, and so does a run of such tokens. A directive fence at level 0 flushes the
  pending Markdown with it, appends its cell and leaves the pending metadata empty. A block
  break at level 0 flushes the pending Markdown with it and then replaces it by the metadata
  read from the break alone, the empty map when the break has no content. A flush gives the
  metadata it is called with, and the line span when lines are tracked, to the Markdown
  cell it appends; it appends no cell when the stripped source is empty, and raises when the
  notebook library refuses the cell. So the metadata of a block break reaches the cell of
  the next flush and no other: when a run of unclassified tokens and then a directive fence
  or a block break follow, the flush at that token builds its Markdown cell, from the lines
  between the two tokens, with the metadata of the first break, and leaves pending the
  empty map after the fence and the second break's own metadata after the break; when the
  document ends after the run, the last flush builds the cell from the lines after the
  break with the break's metadata, and that is the result of the conversion. In a converted
  notebook the Markdown cells that carry metadata are at most as many as the block breaks
  with content at level 0.
\<close>

theorem pending_metadata_used_once:
  "(scan_token E lines cd rd sln s t = Inr s' \<longrightarrow>
      (nesting_level s + nesting t = 0 \<and> is_cell_fence cd rd t \<longrightarrow>
         (\<exists>nb1 c. flush_markdown E lines sln (md_start_line s) (Some t) (md_metadata s) (nb s)
                     = Inr nb1
            \<and> \<not> is_markdown c \<and> nb s' = nb1\<lparr>cells := cells nb1 @ [c]\<rparr>
            \<and> md_metadata s' = []))
      \<and> (nesting_level s + nesting t = 0 \<and> is_block_break t \<longrightarrow>
           (\<exists>nb1. flush_markdown E lines sln (md_start_line s) (Some t) (md_metadata s) (nb s)
                     = Inr nb1
              \<and> nb s' = nb1
              \<and> read_cell_metadata E t (length (cells nb1)) = Inr (md_metadata s')))
      \<and> (nesting_level s + nesting t \<noteq> 0 \<or> (\<not> is_cell_fence cd rd t \<and> \<not> is_block_break t) \<longrightarrow>
           md_metadata s' = md_metadata s \<and> md_start_line s' = md_start_line s \<and> nb s' = nb s))
   \<and> (plain_run cd rd (nesting_level s) run \<longrightarrow>
        scan_tokens E lines cd rd sln s run
          = Inr (s\<lparr>nesting_level := nesting_level s + sum_list (map nesting run)\<rparr>))
   \<and> flush_markdown E lines sln start token m nbk
       = with_markdown_cell E nbk
           (strip_blank_lines (join [newline] (slice lines start (endline_of lines token))))
           (tracked_meta sln start (endline_of lines token) m)
   \<and> (nesting_level s + nesting t = 0 \<and> is_block_break t
        \<and> flush_markdown E lines sln (md_start_line s) (Some t) (md_metadata s) (nb s) = Inr nbk
        \<and> read_cell_metadata E t (length (cells nbk)) = Inr m
        \<and> plain_run cd rd 0 run \<and> sum_list (map nesting run) + nesting c = 0
        \<and> is_cell_fence cd rd c \<longrightarrow>
        scan_tokens E lines cd rd sln s (t # run @ [c]) =
          (case with_markdown_cell E nbk
                  (strip_blank_lines (join [newline]
                     (slice lines (snd (tok_map t)) (fst (tok_map c)))))
                  (tracked_meta sln (snd (tok_map t)) (fst (tok_map c)) m) of
             Inl err \<Rightarrow> Inl err
           | Inr nb2 \<Rightarrow>
          (case read_fenced_cell E c (length (cells nb2))
                  (if startswith (info c) cd then ''Code'' else ''Raw'') of
             Inl err \<Rightarrow> Inl err
           | Inr (options, body_lines) \<Rightarrow>
          (case new_cell E (if startswith (info c) cd then Code else Raw) (length (cells nb2))
                  (join [newline] body_lines) (fence_meta sln c options) of
             Inl err \<Rightarrow> Inl err
           | Inr fenced \<Rightarrow>
               Inr \<lparr>nesting_level = 0, md_metadata = [], md_start_line = snd (tok_map c),
                    nb = nb2\<lparr>cells := cells nb2 @ [fenced]\<rparr>\<rparr>))))
   \<and> (nesting_level s + nesting t = 0 \<and> is_block_break t
        \<and> flush_markdown E lines sln (md_start_line s) (Some t) (md_metadata s) (nb s) = Inr nbk
        \<and> read_cell_metadata E t (length (cells nbk)) = Inr m
        \<and> plain_run cd rd 0 run \<and> sum_list (map nesting run) + nesting c = 0
        \<and> is_block_break c \<longrightarrow>
        scan_tokens E lines cd rd sln s (t # run @ [c]) =
          (case with_markdown_cell E nbk
                  (strip_blank_lines (join [newline]
                     (slice lines (snd (tok_map t)) (fst (tok_map c)))))
                  (tracked_meta sln (snd (tok_map t)) (fst (tok_map c)) m) of
             Inl err \<Rightarrow> Inl err
           | Inr nb2 \<Rightarrow>
          (case read_cell_metadata E c (length (cells nb2)) of
             Inl err \<Rightarrow> Inl err
           | Inr own \<Rightarrow>
               Inr \<lparr>nesting_level = 0, md_metadata = own, md_start_line = snd (tok_map c),
                    nb = nb2\<rparr>)))
   \<and> (read_front_matter E (parse E (str @ [newline])) = Inr (before @ t # run, start_nb, meta_nb)
        \<and> new_notebook E (from_dict meta_nb) = Inr nb0
        \<and> scan_tokens E (splitlines str) cd rd sln (initial_state start_nb nb0) before = Inr s
        \<and> nesting_level s + nesting t = 0 \<and> is_block_break t
        \<and> flush_markdown E (splitlines str) sln (md_start_line s) (Some t) (md_metadata s) (nb s)
            = Inr nbk
        \<and> read_cell_metadata E t (length (cells nbk)) = Inr m
        \<and> plain_run cd rd 0 run \<longrightarrow>
        myst_to_notebook E str cd rd sln =
          with_markdown_cell E nbk
            (strip_blank_lines (join [newline]
               (slice (splitlines str) (snd (tok_map t)) (length (splitlines str)))))
            (tracked_meta sln (snd (tok_map t)) (length (splitlines str)) m))
   \<and> (myst_to_notebook E str cd rd sln = Inr nbk1 \<longrightarrow>
        length (filter carries_metadata (cells nbk1))
        \<le> length (filter break_with_content
                     (top_level_tokens 0 (scanned_tokens (parse E (str @ [newline]))))))"
proof (intro conjI)
  show "scan_token E lines cd rd sln s t = Inr s' \<longrightarrow>
      (nesting_level s + nesting t = 0 \<and> is_cell_fence cd rd t \<longrightarrow>
         (\<exists>nb1 c. flush_markdown E lines sln (md_start_line s) (Some t) (md_metadata s) (nb s)
                     = Inr nb1
            \<and> \<not> is_markdown c \<and> nb s' = nb1\<lparr>cells := cells nb1 @ [c]\<rparr>
            \<and> md_metadata s' = []))
      \<and> (nesting_level s + nesting t = 0 \<and> is_block_break t \<longrightarrow>
           (\<exists>nb1. flush_markdown E lines sln (md_start_line s) (Some t) (md_metadata s) (nb s)
                     = Inr nb1
              \<and> nb s' = nb1
              \<and> read_cell_metadata E t (length (cells nb1)) = Inr (md_metadata s')))
      \<and> (nesting_level s + nesting t \<noteq> 0 \<or> (\<not> is_cell_fence cd rd t \<and> \<not> is_block_break t) \<longrightarrow>
           md_metadata s' = md_metadata s \<and> md_start_line s' = md_start_line s \<and> nb s' = nb s)"
    by (intro impI) (rule scan_token_pending_step)
next
  show "plain_run cd rd (nesting_level s) run \<longrightarrow>
        scan_tokens E lines cd rd sln s run
          = Inr (s\<lparr>nesting_level := nesting_level s + sum_list (map nesting run)\<rparr>)"
    by (intro impI) (rule scan_tokens_plain_run)
next
  show "flush_markdown E lines sln start token m nbk
       = with_markdown_cell E nbk
           (strip_blank_lines (join [newline] (slice lines start (endline_of lines token))))
           (tracked_meta sln start (endline_of lines token) m)"
    by (rule flush_markdown_eq)
next
  show "nesting_level s + nesting t = 0 \<and> is_block_break t
        \<and> flush_markdown E lines sln (md_start_line s) (Some t) (md_metadata s) (nb s) = Inr nbk
        \<and> read_cell_metadata E t (length (cells nbk)) = Inr m
        \<and> plain_run cd rd 0 run \<and> sum_list (map nesting run) + nesting c = 0
        \<and> is_cell_fence cd rd c \<longrightarrow>
        scan_tokens E lines cd rd sln s (t # run @ [c]) =
          (case with_markdown_cell E nbk
                  (strip_blank_lines (join [newline]
                     (slice lines (snd (tok_map t)) (fst (tok_map c)))))
                  (tracked_meta sln (snd (tok_map t)) (fst (tok_map c)) m) of
             Inl err \<Rightarrow> Inl err
           | Inr nb2 \<Rightarrow>
          (case read_fenced_cell E c (length (cells nb2))
                  (if startswith (info c) cd then ''Code'' else ''Raw'') of
             Inl err \<Rightarrow> Inl err
           | Inr (options, body_lines) \<Rightarrow>
          (case new_cell E (if startswith (info c) cd then Code else Raw) (length (cells nb2))
                  (join [newline] body_lines) (fence_meta sln c options) of
             Inl err \<Rightarrow> Inl err
           | Inr fenced \<Rightarrow>
               Inr \<lparr>nesting_level = 0, md_metadata = [], md_start_line = snd (tok_map c),
                    nb = nb2\<lparr>cells := cells nb2 @ [fenced]\<rparr>\<rparr>)))"
    by (intro impI, elim conjE) (rule break_run_fence)
next
  show "nesting_level s + nesting t = 0 \<and> is_block_break t
        \<and> flush_markdown E lines sln (md_start_line s) (Some t) (md_metadata s) (nb s) = Inr nbk
        \<and> read_cell_metadata E t (length (cells nbk)) = Inr m
        \<and> plain_run cd rd 0 run \<and> sum_list (map nesting run) + nesting c = 0
        \<and> is_block_break c \<longrightarrow>
        scan_tokens E lines cd rd sln s (t # run @ [c]) =
          (case with_markdown_cell E nbk
                  (strip_blank_lines (join [newline]
                     (slice lines (snd (tok_map t)) (fst (tok_map c)))))
                  (tracked_meta sln (snd (tok_map t)) (fst (tok_map c)) m) of
             Inl err \<Rightarrow> Inl err
           | Inr nb2 \<Rightarrow>
          (case read_cell_metadata E c (length (cells nb2)) of
             Inl err \<Rightarrow> Inl err
           | Inr own \<Rightarrow>
               Inr \<lparr>nesting_level = 0, md_metadata = own, md_start_line = snd (tok_map c),
                    nb = nb2\<rparr>))"
    by (intro impI, elim conjE) (rule break_run_break)
next
  show "read_front_matter E (parse E (str @ [newline])) = Inr (before @ t # run, start_nb, meta_nb)
        \<and> new_notebook E (from_dict meta_nb) = Inr nb0
        \<and> scan_tokens E (splitlines str) cd rd sln (initial_state start_nb nb0) before = Inr s
        \<and> nesting_level s + nesting t = 0 \<and> is_block_break t
        \<and> flush_markdown E (splitlines str) sln (md_start_line s) (Some t) (md_metadata s) (nb s)
            = Inr nbk
        \<and> read_cell_metadata E t (length (cells nbk)) = Inr m
        \<and> plain_run cd rd 0 run \<longrightarrow>
        myst_to_notebook E str cd rd sln =
          with_markdown_cell E nbk
            (strip_blank_lines (join [newline]
               (slice (splitlines str) (snd (tok_map t)) (length (splitlines str)))))
            (tracked_meta sln (snd (tok_map t)) (length (splitlines str)) m)"
    by (intro impI, elim conjE) (rule break_run_end)
next
  show "myst_to_notebook E str cd rd sln = Inr nbk1 \<longrightarrow>
        length (filter carries_metadata (cells nbk1))
        \<le> length (filter break_with_content
                     (top_level_tokens 0 (scanned_tokens (parse E (str @ [newline])))))"
    unfolding myst_to_notebook_def using convert_tokens_pending by blast
qed

lemma pending_example_step:
  "scan_token demo_env (splitlines cells_text) CODE_DIRECTIVE RAW_DIRECTIVE False
     pending_state code_fence = Inr after_code_state"
  by code_simp

lemma pending_example_token:
  "nesting_level pending_state + nesting code_fence = 0
   \<and> is_cell_fence CODE_DIRECTIVE RAW_DIRECTIVE code_fence"
  by code_simp

lemma pending_example_counts:
  "map own_metadata (cells cells_notebook) = [[], [(PStr ''k'', PInt 1)], [], []]"
  "length (filter break_with_content
     (top_level_tokens 0 (scanned_tokens (parse demo_env (cells_text @ [newline]))))) = 1"
  by code_simp+

lemma pending_example_break:
  "nesting_level (initial_state 0 empty_notebook) + nesting (k1_break (1, 2)) = 0"
  "is_block_break (k1_break (1, 2))"
  "flush_markdown demo_env (splitlines cells_text) False
     (md_start_line (initial_state 0 empty_notebook)) (Some (k1_break (1, 2)))
     (md_metadata (initial_state 0 empty_notebook)) (nb (initial_state 0 empty_notebook))
   = Inr intro_notebook"
  "read_cell_metadata demo_env (k1_break (1, 2)) (length (cells intro_notebook))
   = Inr [(PStr ''k'', PInt 1)]"
  "plain_run CODE_DIRECTIVE RAW_DIRECTIVE 0 note_tokens"
  "sum_list (map nesting note_tokens) + nesting code_fence = 0"
  "is_cell_fence CODE_DIRECTIVE RAW_DIRECTIVE code_fence"
  by code_simp+

lemma pending_example_fence:
  "(case with_markdown_cell demo_env intro_notebook
           (strip_blank_lines (join [newline]
              (slice (splitlines cells_text) (snd (tok_map (k1_break (1, 2))))
                 (fst (tok_map code_fence)))))
           (tracked_meta False (snd (tok_map (k1_break (1, 2)))) (fst (tok_map code_fence))
              [(PStr ''k'', PInt 1)]) of
      Inl err \<Rightarrow> Inl err
    | Inr nb2 \<Rightarrow>
    (case read_fenced_cell demo_env code_fence (length (cells nb2))
            (if startswith (info code_fence) CODE_DIRECTIVE then ''Code'' else ''Raw'') of
       Inl err \<Rightarrow> Inl err
     | Inr (options, body_lines) \<Rightarrow>
    (case new_cell demo_env (if startswith (info code_fence) CODE_DIRECTIVE then Code else Raw)
            (length (cells nb2)) (join [newline] body_lines)
            (fence_meta False code_fence options) of
       Inl err \<Rightarrow> Inl err
     | Inr fenced \<Rightarrow>
         Inr \<lparr>nesting_level = 0, md_metadata = [], md_start_line = snd (tok_map code_fence),
              nb = nb2\<lparr>cells := cells nb2 @ [fenced]\<rparr>\<rparr>)))
   = Inr after_code_state"
  by code_simp

lemma note_example_break:
  "read_front_matter demo_env (parse demo_env (break_note_text @ [newline]))
     = Inr ([] @ k1_break (0, 1) # note_run, 0, PDict [])"
  "scan_tokens demo_env (splitlines break_note_text) CODE_DIRECTIVE RAW_DIRECTIVE False
     (initial_state 0 empty_notebook) [] = Inr (initial_state 0 empty_notebook)"
  "nesting_level (initial_state 0 empty_notebook) + nesting (k1_break (0, 1)) = 0"
  "is_block_break (k1_break (0, 1))"
  "flush_markdown demo_env (splitlines break_note_text) False
     (md_start_line (initial_state 0 empty_notebook)) (Some (k1_break (0, 1)))
     (md_metadata (initial_state 0 empty_notebook)) (nb (initial_state 0 empty_notebook))
   = Inr empty_notebook"
  "read_cell_metadata demo_env (k1_break (0, 1)) (length (cells empty_notebook))
   = Inr [(PStr ''k'', PInt 1)]"
  "plain_run CODE_DIRECTIVE RAW_DIRECTIVE 0 note_run"
  by code_simp+

lemma note_example_cell:
  "with_markdown_cell demo_env empty_notebook
     (strip_blank_lines (join [newline]
        (slice (splitlines break_note_text) (snd (tok_map (k1_break (0, 1))))
           (length (splitlines break_note_text)))))
     (tracked_meta False (snd (tok_map (k1_break (0, 1)))) (length (splitlines break_note_text))
        [(PStr ''k'', PInt 1)])
   = Inr note_notebook"
  by code_simp

theorem pending_metadata_used_once_witness:
  "scan_token demo_env (splitlines cells_text) CODE_DIRECTIVE RAW_DIRECTIVE False
     pending_state code_fence = Inr after_code_state
   \<and> md_metadata after_code_state = []
   \<and> scan_tokens demo_env (splitlines cells_text) CODE_DIRECTIVE RAW_DIRECTIVE False
       (initial_state 0 empty_notebook) (k1_break (1, 2) # note_tokens @ [code_fence])
     = Inr after_code_state
   \<and> myst_to_notebook demo_env break_note_text CODE_DIRECTIVE RAW_DIRECTIVE False
     = Inr note_notebook
   \<and> map metadata (cells note_notebook) = [[(PStr ''k'', PInt 1)]]
   \<and> myst_to_notebook demo_env cells_text CODE_DIRECTIVE RAW_DIRECTIVE False = Inr cells_notebook
   \<and> map own_metadata (cells cells_notebook) = [[], [(PStr ''k'', PInt 1)], [], []]
   \<and> length (filter carries_metadata (cells cells_notebook)) \<le> 1"
proof -
  note step = pending_metadata_used_once[where E = demo_env and lines = "splitlines cells_text"
      and cd = CODE_DIRECTIVE and rd = RAW_DIRECTIVE and sln = False and s = pending_state
      and t = code_fence and s' = after_code_state and str = cells_text
      and ?nbk1.0 = cells_notebook]
  from step pending_example_step pending_example_token
  have a: "md_metadata after_code_state = []" by blast
  from step cells_example_converts
  have "length (filter carries_metadata (cells cells_notebook))
      \<le> length (filter break_with_content
           (top_level_tokens 0 (scanned_tokens (parse demo_env (cells_text @ [newline])))))"
    by blast
  then have b: "length (filter carries_metadata (cells cells_notebook)) \<le> 1"
    by (simp only: pending_example_counts(2))
  note fence = pending_metadata_used_once[where E = demo_env
      and lines = "splitlines cells_text" and cd = CODE_DIRECTIVE and rd = RAW_DIRECTIVE
      and sln = False and s = "initial_state 0 empty_notebook" and t = "k1_break (1, 2)"
      and nbk = intro_notebook and m = "[(PStr ''k'', PInt 1)]" and run = note_tokens
      and c = code_fence]
  from fence pending_example_break
  have "scan_tokens demo_env (splitlines cells_text) CODE_DIRECTIVE RAW_DIRECTIVE False
      (initial_state 0 empty_notebook) (k1_break (1, 2) # note_tokens @ [code_fence])
    = (case with_markdown_cell demo_env intro_notebook
           (strip_blank_lines (join [newline]
              (slice (splitlines cells_text) (snd (tok_map (k1_break (1, 2))))
                 (fst (tok_map code_fence)))))
           (tracked_meta False (snd (tok_map (k1_break (1, 2)))) (fst (tok_map code_fence))
              [(PStr ''k'', PInt 1)]) of
      Inl err \<Rightarrow> Inl err
    | Inr nb2 \<Rightarrow>
    (case read_fenced_cell demo_env code_fence (length (cells nb2))
            (if startswith (info code_fence) CODE_DIRECTIVE then ''Code'' else ''Raw'') of
       Inl err \<Rightarrow> Inl err
     | Inr (options, body_lines) \<Rightarrow>
    (case new_cell demo_env (if startswith (info code_fence) CODE_DIRECTIVE then Code else Raw)
            (length (cells nb2)) (join [newline] body_lines)
            (fence_meta False code_fence options) of
       Inl err \<Rightarrow> Inl err
     | Inr fenced \<Rightarrow>
         Inr \<lparr>nesting_level = 0, md_metadata = [], md_start_line = snd (tok_map code_fence),
              nb = nb2\<lparr>cells := cells nb2 @ [fenced]\<rparr>\<rparr>)))"
    by blast
  then have c: "scan_tokens demo_env (splitlines cells_text) CODE_DIRECTIVE RAW_DIRECTIVE False
      (initial_state 0 empty_notebook) (k1_break (1, 2) # note_tokens @ [code_fence])
    = Inr after_code_state"
    by (simp only: pending_example_fence)
  note final = pending_metadata_used_once[where E = demo_env and str = break_note_text
      and cd = CODE_DIRECTIVE and rd = RAW_DIRECTIVE and sln = False and before = "[]"
      and t = "k1_break (0, 1)" and run = note_run and start_nb = 0 and meta_nb = "PDict []"
      and ?nb0.0 = empty_notebook and s = "initial_state 0 empty_notebook"
      and nbk = empty_notebook and m = "[(PStr ''k'', PInt 1)]"]
  from final note_example_break bad_break_notebook
  have "myst_to_notebook demo_env break_note_text CODE_DIRECTIVE RAW_DIRECTIVE False
    = with_markdown_cell demo_env empty_notebook
        (strip_blank_lines (join [newline]
           (slice (splitlines break_note_text) (snd (tok_map (k1_break (0, 1))))
              (length (splitlines break_note_text)))))
        (tracked_meta False (snd (tok_map (k1_break (0, 1)))) (length (splitlines break_note_text))
           [(PStr ''k'', PInt 1)])"
    by blast
  then have d: "myst_to_notebook demo_env break_note_text CODE_DIRECTIVE RAW_DIRECTIVE False
      = Inr note_notebook"
    by (simp only: note_example_cell)
  have e: "map metadata (cells note_notebook) = [[(PStr ''k'', PInt 1)]]"
    by (simp add: note_notebook_def)
  from pending_example_step a c d e cells_example_converts pending_example_counts(1) b
  show ?thesis by blast
qed

section \<open>What the result depends on\<close>
























end
